theory Spec2Isabelle
  imports Complex_Main
begin

section \<open>Two-stream radiative transfer (frei/twostream.py)\<close>

text \<open>
  The numerical kernel of \<^verbatim>\<open>src/frei/twostream.py\<close> is embedded in three layers.

  \<^item> The value model over the real numbers: a JAX/NumPy float is a \<^typ>\<open>real\<close>,
    \<^verbatim>\<open>x ** a\<close> with a non-integer exponent is \<open>x powr a\<close>, \<^verbatim>\<open>x ** 2\<close> and
    \<^verbatim>\<open>x ** 3\<close> are \<open>x\<^sup>2\<close> and \<open>x ^ 3\<close>, \<^verbatim>\<open>jnp.exp\<close>, \<^verbatim>\<open>jnp.log\<close> and
    \<^verbatim>\<open>jnp.pi\<close> are \<open>exp\<close>, \<open>ln\<close> and \<open>pi\<close>. It gives the value that the code computes
    wherever every operation has a finite real result; rounding and overflow are outside it.
  \<^item> The checked model (suffix \<open>_chk\<close>): the same computation with results in
    \<^typ>\<open>real option\<close>, where \<open>None\<close> says that an operation the code performs has no finite
    real result (a division by zero, a fractional power or square root of a negative
    number), so that the floating-point value is NaN or infinite.
  \<^item> The single-precision model of the Planck function (suffix \<open>_f\<close>): values are finite
    reals, \<open>+Inf\<close>, \<open>-Inf\<close> or NaN, operations follow IEEE 754 with overflow beyond the
    largest single-precision number and without rounding or signed zeros.

  Physical units (astropy quantities) are dropped: every quantity is its numerical value in
  the caller's system of units; where the source divides by a fixed unit, that unit is a
  parameter.

  All array operations of the kernel act elementwise, so each function is first given for one
  array element (one wavelength); the functions with suffix \<open>_arr\<close> lift them to
  one-dimensional arrays, modelled as lists.
\<close>

subsection \<open>Elementwise selection\<close>

text \<open>\<^verbatim>\<open>jnp.where(cond, a, b)\<close> for one element: both \<open>a\<close> and \<open>b\<close> are values that
  have already been computed, and one of them is selected.\<close>

definition jnp_where :: "bool \<Rightarrow> real \<Rightarrow> real \<Rightarrow> real" where
  "jnp_where cond a b = (if cond then a else b)"

text \<open>\<^verbatim>\<open>jnp.expm1\<close>.\<close>

definition expm1 :: "real \<Rightarrow> real" where
  "expm1 x = exp x - 1"

subsection \<open>Scattering correction term\<close>

text \<open>\<^verbatim>\<open>E(omega_0, g_0)\<close>, Deitrick et al. (2020) Eqn 19.\<close>

definition E :: "real \<Rightarrow> real \<Rightarrow> real" where
  "E omega_0 g_0 =
     jnp_where (omega_0 > 0.1)
       (1.225 - 0.1582 * g_0 - 0.1777 * omega_0 - 0.07465 * g_0\<^sup>2
          + 0.2351 * omega_0 * g_0 - 0.05582 * omega_0\<^sup>2)
       1"

subsection \<open>Planck function with guarded reciprocal\<close>

definition true_fun :: "real \<Rightarrow> real" where
  "true_fun x = 1 / x"

definition false_fun :: "real \<Rightarrow> real" where
  "false_fun x = 0"

text \<open>The two local arrays of \<^verbatim>\<open>vectorized_cond\<close>: the argument handed to the
  reciprocal and the argument handed to the constant branch.\<close>

definition true_op :: "real \<Rightarrow> real" where
  "true_op x = jnp_where (x > 0) x 0.5"

definition false_op :: "real \<Rightarrow> real" where
  "false_op x = jnp_where (x > 0) 0 x"

definition vectorized_cond :: "real \<Rightarrow> real" where
  "vectorized_cond x =
     jnp_where (x > 0) (true_fun (true_op x)) (false_fun (false_op x))"

text \<open>The constants local to \<^verbatim>\<open>BB\<close> (they shadow the module-level ones).\<close>

definition BB_h :: real where
  "BB_h = 6.62607015 / 10 ^ 34"

definition BB_c :: real where
  "BB_c = 299792458 * 10 ^ 6"

definition BB_k_B :: real where
  "BB_k_B = 1.380649 / 10 ^ 23"

definition BB :: "real \<Rightarrow> real \<Rightarrow> real" where
  "BB temperature wavenumber =
     (let one_over_denom =
            vectorized_cond
              (expm1 (BB_h * BB_c / BB_k_B * wavenumber * vectorized_cond temperature))
      in 10 ^ 18 * 2 * BB_h * BB_c\<^sup>2 * wavenumber ^ 3 * one_over_denom)"

subsection \<open>Two-stream flux propagator\<close>

text \<open>The local variables of \<^verbatim>\<open>propagate_fluxes\<close>, one definition each, in the order of
  the source. The source names \<^verbatim>\<open>T\<close> and \<^verbatim>\<open>pi\<close> are \<open>T_trans\<close> and \<open>pi_coeff\<close>
  here.\<close>

definition T_trans :: "real \<Rightarrow> real \<Rightarrow> real \<Rightarrow> real" where
  "T_trans omega_0 g_0 delta_tau =
     exp ((- 2) * ((E omega_0 g_0 * (E omega_0 g_0 - omega_0) *
                     (1 - omega_0 * g_0)) powr 0.5) * delta_tau)"

definition zeta_plus :: "real \<Rightarrow> real \<Rightarrow> real" where
  "zeta_plus omega_0 g_0 =
     0.5 * (1 + ((E omega_0 g_0 - omega_0) / E omega_0 g_0 /
                   (1 - omega_0 * g_0)) powr 0.5)"

definition zeta_minus :: "real \<Rightarrow> real \<Rightarrow> real" where
  "zeta_minus omega_0 g_0 =
     0.5 * (1 - ((E omega_0 g_0 - omega_0) / E omega_0 g_0 /
                   (1 - omega_0 * g_0)) powr 0.5)"

definition chi :: "real \<Rightarrow> real \<Rightarrow> real \<Rightarrow> real" where
  "chi omega_0 g_0 delta_tau =
     (zeta_minus omega_0 g_0)\<^sup>2 * (T_trans omega_0 g_0 delta_tau)\<^sup>2
       - (zeta_plus omega_0 g_0)\<^sup>2"

definition xi :: "real \<Rightarrow> real \<Rightarrow> real \<Rightarrow> real" where
  "xi omega_0 g_0 delta_tau =
     zeta_plus omega_0 g_0 * zeta_minus omega_0 g_0 *
       (1 - (T_trans omega_0 g_0 delta_tau)\<^sup>2)"

definition psi :: "real \<Rightarrow> real \<Rightarrow> real \<Rightarrow> real" where
  "psi omega_0 g_0 delta_tau =
     ((zeta_minus omega_0 g_0)\<^sup>2 - (zeta_plus omega_0 g_0)\<^sup>2) *
       T_trans omega_0 g_0 delta_tau"

definition pi_coeff :: "real \<Rightarrow> real \<Rightarrow> real" where
  "pi_coeff omega_0 g_0 = pi * (1 - omega_0) / (E omega_0 g_0 - omega_0)"

text \<open>The divisor \<^verbatim>\<open>x\<close> and the derivative \<^verbatim>\<open>Bprime\<close> (Malik 2017 Equation 5).\<close>

definition Bprime_x :: "real \<Rightarrow> real" where
  "Bprime_x delta_tau = jnp_where (delta_tau = 0) 1 delta_tau"

definition Bprime :: "real \<Rightarrow> real \<Rightarrow> real \<Rightarrow> real" where
  "Bprime B1 B2 delta_tau =
     jnp_where (delta_tau = 0) 0 ((B1 - B2) / Bprime_x delta_tau)"

text \<open>\<^verbatim>\<open>propagate_fluxes\<close> for one wavelength. The parameter \<^verbatim>\<open>eps\<close> of the source
  is never read and is left out. The result is the pair \<^verbatim>\<open>(F_2_up, F_1_down)\<close>.\<close>

definition propagate_fluxes ::
  "real \<Rightarrow> real \<Rightarrow> real \<Rightarrow> real \<Rightarrow> real \<Rightarrow> real \<Rightarrow> real \<Rightarrow> real \<Rightarrow> real \<times> real" where
  "propagate_fluxes lam F_1_up F_2_down T_1 T_2 delta_tau omega_0 g_0 =
     (let chi' = chi omega_0 g_0 delta_tau;
          xi' = xi omega_0 g_0 delta_tau;
          psi' = psi omega_0 g_0 delta_tau;
          pi' = pi_coeff omega_0 g_0;
          wavenumber = 1 / lam;
          B1 = BB T_1 wavenumber;
          B2 = BB T_2 wavenumber;
          Bprime' = Bprime B1 B2 delta_tau;
          F_2_up =
            1 / chi' * (
              psi' * F_1_up - xi' * F_2_down +
              pi' * (B2 * (chi' + xi') - psi' * B1 +
              Bprime' / (2 * E omega_0 g_0 * (1 - omega_0 * g_0)) *
              (chi' - psi' - xi')));
          F_1_down =
            1 / chi' * (
              psi' * F_2_down - xi' * F_1_up +
              pi' * (B1 * (chi' + xi') - psi' * B2 +
              Bprime' / (2 * E omega_0 g_0 * (1 - omega_0 * g_0)) *
              (xi' + psi' - chi')))
      in (F_2_up, F_1_down))"

text \<open>\<^verbatim>\<open>propagate_fluxes\<close> on arrays over the wavelength axis: \<^verbatim>\<open>lam\<close>, the two
  incoming fluxes and \<^verbatim>\<open>delta_tau\<close> are arrays of one shape, the temperatures and the
  scattering parameters are scalars.\<close>

definition propagate_fluxes_arr ::
  "real list \<Rightarrow> real list \<Rightarrow> real list \<Rightarrow> real \<Rightarrow> real \<Rightarrow> real list \<Rightarrow> real \<Rightarrow> real
     \<Rightarrow> real list \<times> real list" where
  "propagate_fluxes_arr lam F_1_up F_2_down T_1 T_2 delta_tau omega_0 g_0 =
     (let out = map (\<lambda>(l, u, d, t). propagate_fluxes l u d T_1 T_2 t omega_0 g_0)
                    (zip lam (zip F_1_up (zip F_2_down delta_tau)))
      in (map fst out, map snd out))"

subsection \<open>Layer geometry and thermodynamics\<close>

text \<open>The module-level constants \<^verbatim>\<open>k_B\<close> and \<^verbatim>\<open>sigma_sb\<close> come from
  \<^verbatim>\<open>astropy.constants\<close>, which is not part of the repository; they are passed as the
  first arguments. The defaults of \<^verbatim>\<open>m_bar\<close>, \<^verbatim>\<open>n_dof\<close> and \<^verbatim>\<open>alpha\<close> are not
  modelled: the arguments are always given.\<close>

definition delta_z_i :: "real \<Rightarrow> real \<Rightarrow> real \<Rightarrow> real \<Rightarrow> real \<Rightarrow> real \<Rightarrow> real" where
  "delta_z_i k_B temperature_i pressure_i pressure_ip1 g m_bar =
     (k_B * temperature_i) / (m_bar * g) * ln (pressure_i / pressure_ip1)"

definition c_p :: "real \<Rightarrow> real \<Rightarrow> real \<Rightarrow> real" where
  "c_p k_B m_bar n_dof = (2 + n_dof) / (2 * m_bar) * k_B"

definition delta_tau_i :: "real \<Rightarrow> real \<Rightarrow> real \<Rightarrow> real \<Rightarrow> real" where
  "delta_tau_i kappa_i p_1 p_2 g = (p_1 - p_2) / g * kappa_i"

definition rho_p :: "real \<Rightarrow> real \<Rightarrow> real \<Rightarrow> real \<Rightarrow> real \<Rightarrow> real \<Rightarrow> real" where
  "rho_p k_B p_1 p_2 T_1 g m_bar =
     ((p_1 - p_2) / g) / delta_z_i k_B T_1 p_1 p_2 g m_bar"

definition gamma :: "real \<Rightarrow> real \<Rightarrow> real \<Rightarrow> real \<Rightarrow> real \<Rightarrow> real \<Rightarrow> real \<Rightarrow> real" where
  "gamma k_B temperature_i temperature_ip1 pressure_i pressure_ip1 g m_bar =
     (temperature_i - temperature_ip1) /
       delta_z_i k_B temperature_i pressure_i pressure_ip1 g m_bar"

definition gamma_adiabatic :: "real \<Rightarrow> real \<Rightarrow> real \<Rightarrow> real \<Rightarrow> real" where
  "gamma_adiabatic k_B g m_bar n_dof = g / c_p k_B m_bar n_dof"

definition delta_gamma ::
  "real \<Rightarrow> real \<Rightarrow> real \<Rightarrow> real \<Rightarrow> real \<Rightarrow> real \<Rightarrow> real \<Rightarrow> real \<Rightarrow> real" where
  "delta_gamma k_B temperature_i temperature_ip1 pressure_i pressure_ip1 g m_bar n_dof =
     gamma k_B temperature_i temperature_ip1 pressure_i pressure_ip1 g m_bar
       - gamma_adiabatic k_B g m_bar n_dof"

definition mixing_length :: "real \<Rightarrow> real \<Rightarrow> real \<Rightarrow> real \<Rightarrow> real \<Rightarrow> real" where
  "mixing_length k_B T_1 g alpha m_bar = alpha * k_B * T_1 / (m_bar * g)"

definition convective_flux ::
  "real \<Rightarrow> real \<Rightarrow> real \<Rightarrow> real \<Rightarrow> real \<Rightarrow> real \<Rightarrow> real \<Rightarrow> real \<Rightarrow> real \<Rightarrow> real" where
  "convective_flux k_B temperature_i temperature_ip1 pressure_i pressure_ip1 g
       m_bar n_dof alpha =
     (let rho = rho_p k_B pressure_i pressure_ip1 temperature_i g m_bar;
          cp = c_p k_B m_bar n_dof;
          lmix = mixing_length k_B temperature_i g alpha m_bar;
          delta_g = delta_gamma k_B temperature_i temperature_ip1 pressure_i pressure_ip1
                      g m_bar n_dof
      in if delta_g > 0
         then rho * cp * lmix\<^sup>2 * (g / temperature_i) powr 0.5 * delta_g powr 1.5
         else 0)"

subsection \<open>Radiative-equilibrium timestep\<close>

text \<open>\<^verbatim>\<open>delta_t_i\<close>. The source divides the flux difference \<^verbatim>\<open>abs(delta_F_i_dz * dz)\<close>
  by the unit \<^verbatim>\<open>u.erg/u.cm**2/u.s\<close> before raising it to the power 0.9; the parameter
  \<open>erg_cm2_s\<close> is the magnitude of that unit in the caller's unit of flux (1 when the
  fluxes are given in CGS units, 1/1000 when they are given in SI units).\<close>

definition delta_t_i ::
  "real \<Rightarrow> real \<Rightarrow> real \<Rightarrow> real \<Rightarrow> real \<Rightarrow> real \<Rightarrow> real \<Rightarrow> real \<Rightarrow> real \<Rightarrow> real \<Rightarrow> real
     \<Rightarrow> real" where
  "delta_t_i k_B sigma_sb erg_cm2_s p_1 p_2 T_1 T_2 delta_F_i_dz g m_bar n_dof =
     (let dz = delta_z_i k_B T_1 p_1 p_2 g m_bar;
          f_i_pre = (if delta_F_i_dz * dz \<noteq> 0
                     then 10 ^ 5 / ((\<bar>delta_F_i_dz * dz\<bar> / erg_cm2_s) powr 0.9)
                     else 1);
          dt_radiative = c_p k_B m_bar n_dof * p_1 / sigma_sb / g / T_1 ^ 3;
          d_gamma = delta_gamma k_B T_1 T_2 p_1 p_2 g m_bar n_dof
      in if d_gamma > 0
         then (let dt_convective = (T_1 / g / d_gamma) powr 0.5
               in f_i_pre * min dt_radiative dt_convective)
         else f_i_pre * dt_radiative)"

text \<open>The timestep as the specification words it, for comparison with \<open>delta_t_i\<close>: the
  radiative timescale \<open>c_p p / (\<sigma> g T\<^sup>3)\<close>, capped by the convective timescale
  \<open>\<surd>(T / (g \<Delta>\<gamma>))\<close> when \<open>\<Delta>\<gamma> > 0\<close>, scaled by \<open>f = (1e5 / |dF/dz|)^0.9\<close> when the
  flux-divergence magnitude is nonzero and by \<open>f = 1\<close> otherwise.\<close>

definition delta_t_i_spec ::
  "real \<Rightarrow> real \<Rightarrow> real \<Rightarrow> real \<Rightarrow> real \<Rightarrow> real \<Rightarrow> real \<Rightarrow> real \<Rightarrow> real \<Rightarrow> real \<Rightarrow> real" where
  "delta_t_i_spec k_B sigma_sb p_1 p_2 T_1 T_2 delta_F_i_dz g m_bar n_dof =
     (let f = (if \<bar>delta_F_i_dz\<bar> \<noteq> 0 then (10 ^ 5 / \<bar>delta_F_i_dz\<bar>) powr 0.9 else 1);
          dt_radiative = c_p k_B m_bar n_dof * p_1 / (sigma_sb * g * T_1 ^ 3);
          d_gamma = delta_gamma k_B T_1 T_2 p_1 p_2 g m_bar n_dof
      in if d_gamma > 0
         then f * min dt_radiative (sqrt (T_1 / (g * d_gamma)))
         else f * dt_radiative)"

subsection \<open>Checked operations\<close>

text \<open>Division, \<^verbatim>\<open>x ** a\<close> with a non-integer exponent and the square root, with
  \<open>None\<close> where the floating-point result is not a finite number: a zero divisor gives
  an infinity or NaN, a negative base or radicand gives NaN.\<close>

definition div_chk :: "real \<Rightarrow> real \<Rightarrow> real option" where
  "div_chk a b = (if b = 0 then None else Some (a / b))"

definition pow_chk :: "real \<Rightarrow> real \<Rightarrow> real option" where
  "pow_chk a p = (if a < 0 then None else Some (a powr p))"

definition sqrt_chk :: "real \<Rightarrow> real option" where
  "sqrt_chk a = (if a < 0 then None else Some (sqrt a))"

text \<open>The coefficients of \<^verbatim>\<open>propagate_fluxes\<close> (lines 156 to 170 of the source) with
  checked operations, in the order of the source.\<close>

definition T_trans_chk :: "real \<Rightarrow> real \<Rightarrow> real \<Rightarrow> real option" where
  "T_trans_chk omega_0 g_0 delta_tau =
     Option.bind (pow_chk (E omega_0 g_0 * (E omega_0 g_0 - omega_0) *
                             (1 - omega_0 * g_0)) 0.5)
       (\<lambda>s. Some (exp ((- 2) * s * delta_tau)))"

definition zeta_root_chk :: "real \<Rightarrow> real \<Rightarrow> real option" where
  "zeta_root_chk omega_0 g_0 =
     Option.bind (div_chk (E omega_0 g_0 - omega_0) (E omega_0 g_0))
       (\<lambda>a. Option.bind (div_chk a (1 - omega_0 * g_0))
         (\<lambda>b. pow_chk b 0.5))"

definition zeta_plus_chk :: "real \<Rightarrow> real \<Rightarrow> real option" where
  "zeta_plus_chk omega_0 g_0 =
     Option.bind (zeta_root_chk omega_0 g_0) (\<lambda>s. Some (0.5 * (1 + s)))"

definition zeta_minus_chk :: "real \<Rightarrow> real \<Rightarrow> real option" where
  "zeta_minus_chk omega_0 g_0 =
     Option.bind (zeta_root_chk omega_0 g_0) (\<lambda>s. Some (0.5 * (1 - s)))"

definition chi_chk :: "real \<Rightarrow> real \<Rightarrow> real \<Rightarrow> real option" where
  "chi_chk omega_0 g_0 delta_tau =
     Option.bind (zeta_minus_chk omega_0 g_0)
       (\<lambda>zm. Option.bind (T_trans_chk omega_0 g_0 delta_tau)
         (\<lambda>T. Option.bind (zeta_plus_chk omega_0 g_0)
           (\<lambda>zp. Some (zm\<^sup>2 * T\<^sup>2 - zp\<^sup>2))))"

definition xi_chk :: "real \<Rightarrow> real \<Rightarrow> real \<Rightarrow> real option" where
  "xi_chk omega_0 g_0 delta_tau =
     Option.bind (zeta_plus_chk omega_0 g_0)
       (\<lambda>zp. Option.bind (zeta_minus_chk omega_0 g_0)
         (\<lambda>zm. Option.bind (T_trans_chk omega_0 g_0 delta_tau)
           (\<lambda>T. Some (zp * zm * (1 - T\<^sup>2)))))"

definition psi_chk :: "real \<Rightarrow> real \<Rightarrow> real \<Rightarrow> real option" where
  "psi_chk omega_0 g_0 delta_tau =
     Option.bind (zeta_minus_chk omega_0 g_0)
       (\<lambda>zm. Option.bind (zeta_plus_chk omega_0 g_0)
         (\<lambda>zp. Option.bind (T_trans_chk omega_0 g_0 delta_tau)
           (\<lambda>T. Some ((zm\<^sup>2 - zp\<^sup>2) * T))))"

definition pi_coeff_chk :: "real \<Rightarrow> real \<Rightarrow> real option" where
  "pi_coeff_chk omega_0 g_0 =
     div_chk (pi * (1 - omega_0)) (E omega_0 g_0 - omega_0)"

text \<open>\<^verbatim>\<open>Bprime\<close> with the division checked (lines 177 to 184). Both operands of
  \<^verbatim>\<open>jnp.where\<close> are computed before one is selected, so the quotient
  \<^verbatim>\<open>(B1 - B2) / x\<close> is computed for every element, also where \<^verbatim>\<open>delta_tau == 0\<close>.\<close>

definition Bprime_chk :: "real \<Rightarrow> real \<Rightarrow> real \<Rightarrow> real option" where
  "Bprime_chk B1 B2 delta_tau =
     Option.bind (div_chk (B1 - B2) (Bprime_x delta_tau))
       (\<lambda>q. Some (jnp_where (delta_tau = 0) 0 q))"



subsection \<open>Planck function in single precision\<close>

text \<open>Single-precision values without rounding: a finite real, an infinity or NaN.
  \<open>float_max\<close> is the largest finite single-precision number, \<open>(2 - 2^-23) 2^127\<close>;
  \<open>rnd\<close> maps an exact result beyond it to the infinity of its sign.\<close>

datatype fl = Fin real | PInf | NInf | NaN

definition float_max :: real where
  "float_max = 2 ^ 128 - 2 ^ 104"

definition rnd :: "real \<Rightarrow> fl" where
  "rnd x = (if x > float_max then PInf else if x < - float_max then NInf else Fin x)"

text \<open>\<^verbatim>\<open>x > 0.\<close>: a comparison with NaN is false.\<close>

fun fl_gt0 :: "fl \<Rightarrow> bool" where
  "fl_gt0 (Fin x) = (x > 0)"
| "fl_gt0 PInf = True"
| "fl_gt0 NInf = False"
| "fl_gt0 NaN = False"

definition fl_where :: "bool \<Rightarrow> fl \<Rightarrow> fl \<Rightarrow> fl" where
  "fl_where cond a b = (if cond then a else b)"

fun fl_mul :: "fl \<Rightarrow> fl \<Rightarrow> fl" where
  "fl_mul NaN _ = NaN"
| "fl_mul _ NaN = NaN"
| "fl_mul (Fin a) (Fin b) = rnd (a * b)"
| "fl_mul (Fin a) PInf = (if a = 0 then NaN else if a > 0 then PInf else NInf)"
| "fl_mul (Fin a) NInf = (if a = 0 then NaN else if a > 0 then NInf else PInf)"
| "fl_mul PInf (Fin b) = (if b = 0 then NaN else if b > 0 then PInf else NInf)"
| "fl_mul NInf (Fin b) = (if b = 0 then NaN else if b > 0 then NInf else PInf)"
| "fl_mul PInf PInf = PInf"
| "fl_mul PInf NInf = NInf"
| "fl_mul NInf PInf = NInf"
| "fl_mul NInf NInf = PInf"

fun fl_div :: "fl \<Rightarrow> fl \<Rightarrow> fl" where
  "fl_div NaN _ = NaN"
| "fl_div _ NaN = NaN"
| "fl_div (Fin a) (Fin b) =
     (if b = 0 then (if a = 0 then NaN else if a > 0 then PInf else NInf)
      else rnd (a / b))"
| "fl_div (Fin a) PInf = Fin 0"
| "fl_div (Fin a) NInf = Fin 0"
| "fl_div PInf (Fin b) = (if b \<ge> 0 then PInf else NInf)"
| "fl_div NInf (Fin b) = (if b \<ge> 0 then NInf else PInf)"
| "fl_div PInf PInf = NaN"
| "fl_div PInf NInf = NaN"
| "fl_div NInf PInf = NaN"
| "fl_div NInf NInf = NaN"

fun fl_expm1 :: "fl \<Rightarrow> fl" where
  "fl_expm1 (Fin x) = rnd (exp x - 1)"
| "fl_expm1 PInf = PInf"
| "fl_expm1 NInf = Fin (- 1)"
| "fl_expm1 NaN = NaN"

text \<open>\<^verbatim>\<open>x ** 3\<close>, an integer power, by repeated multiplication.\<close>

definition fl_pow3 :: "fl \<Rightarrow> fl" where
  "fl_pow3 x = fl_mul (fl_mul x x) x"

definition true_fun_f :: "fl \<Rightarrow> fl" where
  "true_fun_f x = fl_div (Fin 1) x"

definition false_fun_f :: "fl \<Rightarrow> fl" where
  "false_fun_f x = Fin 0"

definition vectorized_cond_f :: "fl \<Rightarrow> fl" where
  "vectorized_cond_f x =
     (let true_op = fl_where (fl_gt0 x) x (Fin 0.5);
          false_op = fl_where (fl_gt0 x) (Fin 0) x
      in fl_where (fl_gt0 x) (true_fun_f true_op) (false_fun_f false_op))"

text \<open>\<^verbatim>\<open>BB\<close>. The products \<^verbatim>\<open>h * c / k_B\<close> and \<^verbatim>\<open>1e18 * 2 * h * c ** 2\<close> of the
  local constants are Python floats, computed in double precision before they meet the
  arrays; they are taken exactly.\<close>

definition BB_f :: "fl \<Rightarrow> fl \<Rightarrow> fl" where
  "BB_f temperature wavenumber =
     (let one_over_denom =
            vectorized_cond_f
              (fl_expm1 (fl_mul (fl_mul (Fin (BB_h * BB_c / BB_k_B)) wavenumber)
                                (vectorized_cond_f temperature)))
      in fl_mul (fl_mul (Fin (10 ^ 18 * 2 * BB_h * BB_c\<^sup>2)) (fl_pow3 wavenumber))
                one_over_denom)"

text \<open>\<^verbatim>\<open>BB\<close> on two arrays of the same shape.\<close>

definition BB_arr_f :: "fl list \<Rightarrow> fl list \<Rightarrow> fl list" where
  "BB_arr_f temperature wavenumber =
     map (\<lambda>(t, w). BB_f t w) (zip temperature wavenumber)"

subsection \<open>Emission driver\<close>

text \<open>
  Two-dimensional arrays are lists of rows. \<^verbatim>\<open>emit\<close> raises no exception of its own; the
  array library raises while the function is traced, on shapes it cannot index or
  broadcast. These errors are the values of \<open>emit_error\<close>, and a fallible step returns
  \<open>emit_error + 'a\<close>.
\<close>

datatype emit_error = IndexError | ValueError

definition bind_err :: "'e + 'a \<Rightarrow> ('a \<Rightarrow> 'e + 'b) \<Rightarrow> 'e + 'b" where
  "bind_err m f = (case m of Inl e \<Rightarrow> Inl e | Inr v \<Rightarrow> f v)"

fun mapM_err :: "('a \<Rightarrow> 'e + 'b) \<Rightarrow> 'a list \<Rightarrow> 'e + 'b list" where
  "mapM_err f [] = Inr []"
| "mapM_err f (x # xs) =
     bind_err (f x) (\<lambda>y. bind_err (mapM_err f xs) (\<lambda>ys. Inr (y # ys)))"

fun foldM_err :: "('a \<Rightarrow> 's \<Rightarrow> 'e + 's) \<Rightarrow> 'a list \<Rightarrow> 's \<Rightarrow> 'e + 's" where
  "foldM_err f [] s = Inr s"
| "foldM_err f (x # xs) s = bind_err (f x s) (foldM_err f xs)"

text \<open>Indexing follows JAX. Reading \<^verbatim>\<open>x[i]\<close> with a traced index \<open>i \<ge> 0\<close>: an index
  beyond the last element is clamped to it; an axis of size zero cannot be indexed and
  raises IndexError. An update \<^verbatim>\<open>x.at[i].set(v)\<close> at an index beyond the last element
  is dropped.\<close>

definition clamped_index :: "'a list \<Rightarrow> nat \<Rightarrow> emit_error + 'a" where
  "clamped_index xs i =
     (if xs = [] then Inl IndexError else Inr (xs ! min i (length xs - 1)))"

definition at_set :: "'a list \<Rightarrow> nat \<Rightarrow> 'a \<Rightarrow> 'a list" where
  "at_set xs i v = (if i < length xs then xs[i := v] else xs)"

text \<open>The value written into a row of \<open>n\<close> entries is broadcast to that shape: an array
  of \<open>n\<close> entries is taken as it is, an array of one entry is repeated, and any other
  shape cannot be broadcast.\<close>

definition broadcast_row :: "real list \<Rightarrow> nat \<Rightarrow> real list option" where
  "broadcast_row v n =
     (if length v = n then Some v
      else if length v = 1 then Some (replicate n (v ! 0))
      else None)"

text \<open>\<^verbatim>\<open>x.at[-1].set(v)\<close> on an array of rows of \<open>n\<close> entries: IndexError when there is
  no row, ValueError when \<open>v\<close> cannot be broadcast to a row.\<close>

definition at_set_last :: "real list list \<Rightarrow> nat \<Rightarrow> real list \<Rightarrow> emit_error + real list list" where
  "at_set_last xs n v =
     (if xs = [] then Inl IndexError
      else case broadcast_row v n of
             None \<Rightarrow> Inl ValueError
           | Some row \<Rightarrow> Inr (xs[length xs - 1 := row]))"

text \<open>\<^verbatim>\<open>lax.scan(f, carry, xs)[1]\<close> for a body that passes its carry on unchanged: the
  stacked outputs. \<^verbatim>\<open>lax.fori_loop(lower, upper, body, init)\<close>. Both trace their body
  once before they run, so an error that the body raises is raised also when there is
  nothing to iterate over. The errors of the bodies below depend on the shapes only; the
  model traces a scan body at the placeholder \<open>d\<close> and the loop body at \<open>lower\<close>.\<close>

definition lax_scan :: "('a \<Rightarrow> 'e + 'b) \<Rightarrow> 'a \<Rightarrow> 'a list \<Rightarrow> 'e + 'b list" where
  "lax_scan f d xs = bind_err (f d) (\<lambda>_. mapM_err f xs)"

definition fori_loop ::
  "nat \<Rightarrow> nat \<Rightarrow> (nat \<Rightarrow> 's \<Rightarrow> 'e + 's) \<Rightarrow> 's \<Rightarrow> 'e + 's" where
  "fori_loop lower upper body init =
     bind_err (body lower init) (\<lambda>_. foldM_err body [lower..<upper] init)"

text \<open>\<^verbatim>\<open>jnp.interp(x, xp, fp)\<close>: ValueError unless \<open>xp\<close> and \<open>fp\<close> are one-dimensional
  arrays of equal size; on arrays of size zero the interpolation indexes an empty axis.
  The interpolated value is a parameter \<open>interp\<close> of the model.\<close>

definition jnp_interp ::
  "(real \<Rightarrow> real list \<Rightarrow> real list \<Rightarrow> real) \<Rightarrow> real \<Rightarrow> real list \<Rightarrow> real list
     \<Rightarrow> emit_error + real" where
  "jnp_interp interp x xp fp =
     (if length xp \<noteq> length fp then Inl ValueError
      else if xp = [] then Inl IndexError
      else Inr (interp x xp fp))"

text \<open>\<^verbatim>\<open>offline_opacities[i, :, j]\<close>: the opacity table is indexed by layer, by point of
  the temperature grid and by wavelength.\<close>

definition opacity_slice ::
  "real list list list \<Rightarrow> nat \<Rightarrow> nat \<Rightarrow> emit_error + real list" where
  "opacity_slice offline_opacities i j =
     bind_err (clamped_index offline_opacities i)
       (\<lambda>layer. mapM_err (\<lambda>row. clamped_index row j) layer)"

text \<open>\<^verbatim>\<open>kappa_interp_i\<close>: for each wavelength index \<open>j\<close> the inner scan interpolates the
  opacity at every temperature of \<^verbatim>\<open>temps\<close>; \<^verbatim>\<open>[:, 0]\<close> keeps the first of them and
  raises IndexError when there is no temperature.\<close>

definition kappa_interp ::
  "(real \<Rightarrow> real list \<Rightarrow> real list \<Rightarrow> real) \<Rightarrow> real list list list \<Rightarrow> real list
     \<Rightarrow> real list \<Rightarrow> real list \<Rightarrow> nat \<Rightarrow> emit_error + real list" where
  "kappa_interp interp offline_opacities opacity_grid_temperatures temps lam i =
     bind_err
       (lax_scan
          (\<lambda>j. bind_err (opacity_slice offline_opacities i j)
                  (\<lambda>op. lax_scan (\<lambda>x. jnp_interp interp x opacity_grid_temperatures op)
                           0 temps))
          0 [0..<length lam])
       (\<lambda>rows. if temps = [] then Inl IndexError
               else Inr (map (\<lambda>row. row ! 0) rows))"

text \<open>\<^verbatim>\<open>body_fun\<close>: one step of the layer loop on the stacked array
  \<^verbatim>\<open>vstack([fluxes_up, fluxes_down])\<close>.\<close>

definition body_fun ::
  "(real \<Rightarrow> real list \<Rightarrow> real list \<Rightarrow> real) \<Rightarrow> real list list list \<Rightarrow> real list
     \<Rightarrow> real list \<Rightarrow> real list \<Rightarrow> real \<Rightarrow> real list
     \<Rightarrow> nat \<Rightarrow> real list list \<Rightarrow> emit_error + real list list" where
  "body_fun interp offline_opacities temps pressures lam g opacity_grid_temperatures
       i fluxes =
     (let fluxes_up = take (length fluxes div 2) fluxes;
          fluxes_down = drop (length fluxes div 2) fluxes
      in bind_err (clamped_index pressures (i + 1)) (\<lambda>p_2.
         bind_err (clamped_index temps (i + 1)) (\<lambda>T_2.
         bind_err (clamped_index pressures i) (\<lambda>p_1.
         bind_err (clamped_index temps i) (\<lambda>T_1.
         bind_err (kappa_interp interp offline_opacities opacity_grid_temperatures
                     temps lam i) (\<lambda>kappa_interp_i.
         let delta_tau = map (\<lambda>kappa_i. delta_tau_i kappa_i p_1 p_2 g) kappa_interp_i;
             omega_0 = 0
         in bind_err (clamped_index fluxes_down (i + 1)) (\<lambda>F_2_down.
            bind_err (clamped_index fluxes_up i) (\<lambda>F_1_up.
            let (F_2_up, F_1_down) =
                  propagate_fluxes_arr lam F_1_up F_2_down T_1 T_2 delta_tau omega_0 0
            in Inr (at_set fluxes_up (i + 1) F_2_up @
                    at_set fluxes_down i F_1_down)))))))))"

text \<open>\<^verbatim>\<open>emit\<close>. The parameters \<^verbatim>\<open>m_bar\<close> and \<^verbatim>\<open>alpha\<close> of the source are never read
  and are left out. The result is the pair \<^verbatim>\<open>(fluxes_up, fluxes_down)\<close>.\<close>

definition emit ::
  "(real \<Rightarrow> real list \<Rightarrow> real list \<Rightarrow> real) \<Rightarrow> real list list list \<Rightarrow> real list
     \<Rightarrow> real list \<Rightarrow> real list \<Rightarrow> real list \<Rightarrow> real \<Rightarrow> real list
     \<Rightarrow> emit_error + (real list list \<times> real list list)" where
  "emit interp offline_opacities temperatures pressures lam F_TOA g
       opacity_grid_temperatures =
     (let n_layers = length pressures;
          n_wavelengths = length lam;
          fluxes_up = replicate n_layers (replicate n_wavelengths 0);
          fluxes_down = replicate n_layers (replicate n_wavelengths 0)
      in bind_err (at_set_last fluxes_down n_wavelengths F_TOA) (\<lambda>fluxes_down.
         let temps = temperatures
         in bind_err
              (fori_loop 1 n_layers
                 (body_fun interp offline_opacities temps pressures lam g
                    opacity_grid_temperatures)
                 (fluxes_up @ fluxes_down))
              (\<lambda>res. Inr (take (length res div 2) res, drop (length res div 2) res))))"

section \<open>Properties\<close>

subsection \<open>Scattering correction term\<close>

text \<open>
  C6. For every \<open>omega_0 \<le> 0.1\<close> and every \<open>g_0\<close> in \<open>[-1, 1]\<close>, \<open>E omega_0 g_0\<close> is
  exactly 1; for every \<open>omega_0 > 0.1\<close> it is the quadratic polynomial
  \<open>1.225 - 0.1582 g_0 - 0.1777 omega_0 - 0.07465 g_0\<^sup>2 + 0.2351 omega_0 g_0
    - 0.05582 omega_0\<^sup>2\<close>.
\<close>

theorem E_cases:
  "(omega_0 \<le> 0.1 \<and> - 1 \<le> g_0 \<and> g_0 \<le> 1 \<longrightarrow> E omega_0 g_0 = 1) \<and>
   (omega_0 > 0.1 \<longrightarrow>
      E omega_0 g_0 =
        1.225 - 0.1582 * g_0 - 0.1777 * omega_0 - 0.07465 * g_0\<^sup>2
          + 0.2351 * omega_0 * g_0 - 0.05582 * omega_0\<^sup>2)"
  by (simp add: E_def jnp_where_def)

theorem E_cases_witness:
  "((0.05::real) \<le> 0.1 \<and> - 1 \<le> (0.5::real) \<and> (0.5::real) \<le> 1 \<and> E 0.05 0.5 = 1) \<and>
   ((0.5::real) > 0.1 \<and>
      E 0.5 0.5 =
        1.225 - 0.1582 * 0.5 - 0.1777 * 0.5 - 0.07465 * 0.5\<^sup>2
          + 0.2351 * 0.5 * 0.5 - 0.05582 * 0.5\<^sup>2)"
  using E_cases [of "0.05" "0.5"] E_cases [of "0.5" "0.5"] by simp

subsection \<open>Planck function\<close>

lemma float_max_bound: "34 * 10 ^ 37 \<le> float_max"
  by (simp add: float_max_def)

lemma rnd_Fin: "\<bar>x\<bar> \<le> float_max \<Longrightarrow> rnd x = Fin x"
  by (auto simp: rnd_def)

lemma le_float_max: "\<bar>x\<bar> \<le> b \<Longrightarrow> b \<le> 34 * 10 ^ 37 \<Longrightarrow> \<bar>x\<bar> \<le> float_max"
  using float_max_bound by (meson order_trans)

lemma rnd_0: "rnd 0 = Fin 0"
  using float_max_bound by (intro rnd_Fin) simp

lemma BB_K1_bound: "0 < BB_h * BB_c / BB_k_B" "BB_h * BB_c / BB_k_B \<le> 14388"
  by (simp_all add: BB_h_def BB_c_def BB_k_B_def)

lemma BB_K2_bound: "0 < 10 ^ 18 * 2 * BB_h * BB_c\<^sup>2" "10 ^ 18 * 2 * BB_h * BB_c\<^sup>2 \<le> 12 * 10 ^ 13"
  by (simp_all add: BB_h_def BB_c_def power2_eq_square)

lemma vectorized_cond_f_nonpos: "x \<le> 0 \<Longrightarrow> vectorized_cond_f (Fin x) = Fin 0"
  by (simp add: vectorized_cond_f_def fl_where_def false_fun_f_def)

lemma vectorized_cond_f_NaN: "vectorized_cond_f NaN = Fin 0"
  by (simp add: vectorized_cond_f_def fl_where_def false_fun_f_def)

lemma vectorized_cond_f_pos:
  "0 < x \<Longrightarrow> vectorized_cond_f (Fin x) = rnd (1 / x)"
  by (simp add: vectorized_cond_f_def fl_where_def true_fun_f_def)

lemma fl_mul_0_cases: "fl_mul (Fin 0) y = Fin 0 \<or> fl_mul (Fin 0) y = NaN"
  by (cases y) (simp_all add: rnd_0)

lemma fl_pow3_Fin:
  assumes "\<bar>w\<bar> \<le> 10 ^ 8"
  shows "fl_pow3 (Fin w) = Fin (w ^ 3)"
proof -
  have "\<bar>w * w\<bar> \<le> 10 ^ 8 * 10 ^ 8"
    unfolding abs_mult using assms by (intro mult_mono) simp_all
  then have a: "\<bar>w * w\<bar> \<le> 10 ^ 16" by simp
  then have "\<bar>w * w * w\<bar> \<le> 10 ^ 16 * 10 ^ 8"
    unfolding abs_mult [of "w * w" w] using assms by (intro mult_mono) simp_all
  then have b: "\<bar>w * w * w\<bar> \<le> 10 ^ 24" by simp
  have "rnd (w * w) = Fin (w * w)"
    by (intro rnd_Fin le_float_max [OF a]) simp
  moreover have "rnd (w * w * w) = Fin (w * w * w)"
    by (intro rnd_Fin le_float_max [OF b]) simp
  ultimately show ?thesis
    by (simp add: fl_pow3_def power3_eq_cube)
qed

lemma BB_f_prefactor_Fin:
  assumes "\<bar>w\<bar> \<le> 10 ^ 8"
  shows "fl_mul (Fin (10 ^ 18 * 2 * BB_h * BB_c\<^sup>2)) (fl_pow3 (Fin w))
           = Fin (10 ^ 18 * 2 * BB_h * BB_c\<^sup>2 * w ^ 3)"
proof -
  have "\<bar>w ^ 3\<bar> \<le> (10 ^ 8) ^ 3"
    unfolding power_abs using assms by (intro power_mono) simp_all
  then have "\<bar>10 ^ 18 * 2 * BB_h * BB_c\<^sup>2 * w ^ 3\<bar> \<le> (12 * 10 ^ 13) * (10 ^ 8) ^ 3"
    unfolding abs_mult [of _ "w ^ 3"] using BB_K2_bound
    by (intro mult_mono) simp_all
  then have "\<bar>10 ^ 18 * 2 * BB_h * BB_c\<^sup>2 * w ^ 3\<bar> \<le> float_max"
    by (rule le_float_max) simp
  then show ?thesis
    by (simp add: fl_pow3_Fin [OF assms] rnd_Fin)
qed

lemma BB_f_zero:
  assumes "T \<le> 0 \<or> w = 0" and w: "\<bar>w\<bar> \<le> 10 ^ 8"
  shows "BB_f (Fin T) (Fin w) = Fin 0"
proof -
  let ?arg = "fl_expm1 (fl_mul (fl_mul (Fin (BB_h * BB_c / BB_k_B)) (Fin w))
                                (vectorized_cond_f (Fin T)))"
  have ood: "vectorized_cond_f ?arg = Fin 0"
  proof (cases "T \<le> 0")
    case True
    have "\<bar>BB_h * BB_c / BB_k_B * w\<bar> \<le> 14388 * 10 ^ 8"
      unfolding abs_mult using BB_K1_bound w by (intro mult_mono) simp_all
    then have "\<bar>BB_h * BB_c / BB_k_B * w\<bar> \<le> float_max"
      by (rule le_float_max) simp
    then have "fl_mul (Fin (BB_h * BB_c / BB_k_B)) (Fin w) = Fin (BB_h * BB_c / BB_k_B * w)"
      by (simp add: rnd_Fin)
    then have "?arg = Fin 0"
      using True by (simp add: vectorized_cond_f_nonpos rnd_0)
    then show ?thesis by (simp add: vectorized_cond_f_nonpos)
  next
    case False
    with assms(1) have w0: "w = 0" by simp
    have "fl_mul (Fin (BB_h * BB_c / BB_k_B)) (Fin w) = Fin 0"
      using w0 by (simp add: rnd_0)
    then have "?arg = fl_expm1 (Fin 0) \<or> ?arg = fl_expm1 NaN"
      using fl_mul_0_cases [of "vectorized_cond_f (Fin T)"] by auto
    then have "?arg = Fin 0 \<or> ?arg = NaN"
      by (simp add: rnd_0)
    then show ?thesis
      by (auto simp: vectorized_cond_f_nonpos vectorized_cond_f_NaN)
  qed
  show ?thesis
    unfolding BB_f_def Let_def ood BB_f_prefactor_Fin [OF w]
    by (simp add: rnd_0)
qed

text \<open>
  C5, as the code has it. For arrays of finite temperatures and wavenumbers with
  \<open>|wavenumber| \<le> 1e8\<close> (so that neither \<open>wavenumber\<^sup>3\<close> nor its product with the
  constant prefactor overflows single precision), \<open>BB\<close> is exactly zero, and so neither
  NaN nor infinite, at every element whose temperature is zero or negative and at every
  element whose wavenumber is zero. The guard is the elementwise selection of
  \<open>vectorized_cond\<close>; it covers the reciprocal only, not the factor \<open>wavenumber\<^sup>3\<close>.
\<close>

theorem BB_guarded_zero:
  assumes "length temperature = length wavenumber" and "k < length wavenumber"
    and "temperature ! k = Fin T" and "wavenumber ! k = Fin w"
    and "T \<le> 0 \<or> w = 0" and "\<bar>w\<bar> \<le> 10 ^ 8"
  shows "BB_arr_f temperature wavenumber ! k = Fin 0"
proof -
  have "BB_arr_f temperature wavenumber ! k = BB_f (temperature ! k) (wavenumber ! k)"
    using assms(1,2) by (simp add: BB_arr_f_def)
  then show ?thesis
    using assms(3,4) BB_f_zero [OF assms(5,6)] by simp
qed

theorem BB_guarded_zero_witness:
  "BB_arr_f [Fin 0, Fin 300, Fin 250] [Fin 1, Fin 0, Fin 2] ! 0 = Fin 0 \<and>
   BB_arr_f [Fin 0, Fin 300, Fin 250] [Fin 1, Fin 0, Fin 2] ! 1 = Fin 0"
  using BB_guarded_zero [of "[Fin 0, Fin 300, Fin 250]" "[Fin 1, Fin 0, Fin 2]" 0 0 1]
    BB_guarded_zero [of "[Fin 0, Fin 300, Fin 250]" "[Fin 1, Fin 0, Fin 2]" 1 300 0]
  by simp

text \<open>Without the bound the claim fails: at temperature 0 and wavenumber \<open>1e13\<close> the
  cube \<open>1e39\<close> overflows to \<open>+Inf\<close>, and \<open>Inf * 0\<close> is NaN.\<close>

theorem BB_overflow_counterexample:
  "BB_arr_f [Fin 0] [Fin (10 ^ 13)] = [NaN]"
proof -
  have "\<bar>BB_h * BB_c / BB_k_B * 10 ^ 13\<bar> \<le> 14388 * 10 ^ 13"
    by (simp add: BB_h_def BB_c_def BB_k_B_def)
  then have "\<bar>BB_h * BB_c / BB_k_B * 10 ^ 13\<bar> \<le> float_max"
    by (rule le_float_max) simp
  then have m: "fl_mul (Fin (BB_h * BB_c / BB_k_B)) (Fin (10 ^ 13))
                  = Fin (BB_h * BB_c / BB_k_B * 10 ^ 13)"
    unfolding fl_mul.simps by (rule rnd_Fin)
  have v: "vectorized_cond_f (Fin 0) = Fin 0"
    by (simp add: vectorized_cond_f_nonpos)
  have arg: "fl_expm1 (fl_mul (Fin (BB_h * BB_c / BB_k_B * 10 ^ 13)) (Fin 0)) = Fin 0"
    by (simp add: rnd_0)
  have p: "fl_pow3 (Fin (10 ^ 13)) = PInf"
    by (simp add: fl_pow3_def rnd_def float_max_def)
  have "(10 ^ 18 * 2 * BB_h * BB_c\<^sup>2 = 0) = False"
    and "(0 < 10 ^ 18 * 2 * BB_h * BB_c\<^sup>2) = True"
    using BB_K2_bound(1) by auto
  then have k: "fl_mul (Fin (10 ^ 18 * 2 * BB_h * BB_c\<^sup>2)) PInf = PInf"
    unfolding fl_mul.simps by (simp only: if_True if_False)
  have "BB_f (Fin 0) (Fin (10 ^ 13)) = NaN"
    unfolding BB_f_def Let_def m v arg p k by simp
  then show ?thesis by (simp add: BB_arr_f_def)
qed

subsection \<open>Two-stream flux propagator\<close>

text \<open>
  C8. The derivative in depth \<open>B'\<close> is \<open>(B1 - B2) / delta_tau\<close> whenever \<open>delta_tau\<close> is
  nonzero and exactly zero when \<open>delta_tau = 0\<close>, and the computation performs no division
  by zero: the checked computation never fails, although the quotient is computed for
  every element. Its value is the \<open>Bprime\<close> of the value model.
\<close>

theorem Bprime_guarded:
  "(delta_tau \<noteq> 0 \<longrightarrow> Bprime_chk B1 B2 delta_tau = Some ((B1 - B2) / delta_tau)) \<and>
   (delta_tau = 0 \<longrightarrow> Bprime_chk B1 B2 delta_tau = Some 0) \<and>
   Bprime_chk B1 B2 delta_tau = Some (Bprime B1 B2 delta_tau)"
  by (simp add: Bprime_chk_def div_chk_def Bprime_def Bprime_x_def jnp_where_def)

theorem Bprime_guarded_witness:
  "(2::real) \<noteq> 0 \<and> Bprime_chk 5 1 2 = Some ((5 - 1) / 2) \<and> Bprime_chk 5 1 0 = Some 0"
  using Bprime_guarded [of 2 5 1] Bprime_guarded [of 0 5 1] by simp

lemma powr_half: "0 \<le> x \<Longrightarrow> x powr 0.5 = sqrt x"
  using powr_half_sqrt [of x] by simp

lemma pow_chk_half: "pow_chk x (1 / 2) = sqrt_chk x"
  by (simp add: pow_chk_def sqrt_chk_def powr_half_sqrt)

lemma T_trans_chk_eq:
  "T_trans_chk omega_0 g_0 delta_tau =
     (if 0 \<le> E omega_0 g_0 * (E omega_0 g_0 - omega_0) * (1 - omega_0 * g_0)
      then Some (exp (- 2 * sqrt (E omega_0 g_0 * (E omega_0 g_0 - omega_0) *
                                    (1 - omega_0 * g_0)) * delta_tau))
      else None)"
  by (simp add: T_trans_chk_def pow_chk_half sqrt_chk_def)

lemma zeta_root_chk_eq:
  "zeta_root_chk omega_0 g_0 =
     (if E omega_0 g_0 \<noteq> 0 \<and> 1 - omega_0 * g_0 \<noteq> 0 \<and>
         0 \<le> (E omega_0 g_0 - omega_0) / E omega_0 g_0 / (1 - omega_0 * g_0)
      then Some (sqrt ((E omega_0 g_0 - omega_0) / E omega_0 g_0 / (1 - omega_0 * g_0)))
      else None)"
  by (simp add: zeta_root_chk_def div_chk_def pow_chk_half sqrt_chk_def)

lemma T_trans_chk_value:
  "T_trans_chk omega_0 g_0 delta_tau = Some v \<Longrightarrow> v = T_trans omega_0 g_0 delta_tau"
  by (auto simp: T_trans_chk_def pow_chk_def T_trans_def split: if_splits)

lemma zeta_chk_value:
  "zeta_plus_chk omega_0 g_0 = Some v \<Longrightarrow> v = zeta_plus omega_0 g_0"
  "zeta_minus_chk omega_0 g_0 = Some v' \<Longrightarrow> v' = zeta_minus omega_0 g_0"
  by (auto simp: zeta_plus_chk_def zeta_minus_chk_def zeta_root_chk_def div_chk_def
      pow_chk_def zeta_plus_def zeta_minus_def split: if_splits)

lemma pi_coeff_chk_value:
  "pi_coeff_chk omega_0 g_0 = Some v \<Longrightarrow> v = pi_coeff omega_0 g_0"
  by (auto simp: pi_coeff_chk_def div_chk_def pi_coeff_def split: if_splits)

text \<open>
  C1. For every \<open>omega_0\<close>, \<open>g_0\<close> and \<open>delta_tau\<close>, \<open>propagate_fluxes\<close> computes the
  transmission \<open>T = exp (-2 \<surd>(E (E - omega_0) (1 - omega_0 g_0)) delta_tau)\<close>, the
  coefficients \<open>zeta_plus/minus = (1 \<plusminus> \<surd>((E - omega_0) / E / (1 - omega_0 g_0))) / 2\<close>,
  \<open>chi = zeta_minus\<^sup>2 T\<^sup>2 - zeta_plus\<^sup>2\<close>, \<open>xi = zeta_plus zeta_minus (1 - T\<^sup>2)\<close>,
  \<open>psi = (zeta_minus\<^sup>2 - zeta_plus\<^sup>2) T\<close> and \<open>pi = \<pi> (1 - omega_0) / (E - omega_0)\<close>
  with \<open>E = E omega_0 g_0\<close>: each computed coefficient is the stated formula wherever the
  formula denotes a real number, and is NaN or infinite exactly where it does not (a
  negative radicand or a zero divisor, as at \<open>omega_0 = 1\<close>, \<open>g_0 = 0\<close>). Where the
  coefficients are numbers, the two results of \<open>propagate_fluxes\<close> are the closed forms
  in them.
\<close>

theorem propagate_fluxes_coefficients:
  "let Ev = E omega_0 g_0;
       r1 = Ev * (Ev - omega_0) * (1 - omega_0 * g_0);
       r2 = (Ev - omega_0) / Ev / (1 - omega_0 * g_0);
       T_def = (0 \<le> r1);
       zeta_def = (Ev \<noteq> 0 \<and> 1 - omega_0 * g_0 \<noteq> 0 \<and> 0 \<le> r2);
       T = exp (- 2 * sqrt r1 * delta_tau);
       zp = (1 + sqrt r2) / 2;
       zm = (1 - sqrt r2) / 2;
       chi_s = zm\<^sup>2 * T\<^sup>2 - zp\<^sup>2;
       xi_s = zp * zm * (1 - T\<^sup>2);
       psi_s = (zm\<^sup>2 - zp\<^sup>2) * T;
       pi_s = pi * (1 - omega_0) / (Ev - omega_0);
       B1 = BB T_1 (1 / lam);
       B2 = BB T_2 (1 / lam);
       Bp = Bprime B1 B2 delta_tau
   in T_trans_chk omega_0 g_0 delta_tau = (if T_def then Some T else None) \<and>
      zeta_plus_chk omega_0 g_0 = (if zeta_def then Some zp else None) \<and>
      zeta_minus_chk omega_0 g_0 = (if zeta_def then Some zm else None) \<and>
      chi_chk omega_0 g_0 delta_tau = (if T_def \<and> zeta_def then Some chi_s else None) \<and>
      xi_chk omega_0 g_0 delta_tau = (if T_def \<and> zeta_def then Some xi_s else None) \<and>
      psi_chk omega_0 g_0 delta_tau = (if T_def \<and> zeta_def then Some psi_s else None) \<and>
      pi_coeff_chk omega_0 g_0 = (if Ev \<noteq> omega_0 then Some pi_s else None) \<and>
      (T_def \<and> zeta_def \<longrightarrow>
         propagate_fluxes lam F_1_up F_2_down T_1 T_2 delta_tau omega_0 g_0 =
           (1 / chi_s * (psi_s * F_1_up - xi_s * F_2_down +
              pi_s * (B2 * (chi_s + xi_s) - psi_s * B1 +
                Bp / (2 * Ev * (1 - omega_0 * g_0)) * (chi_s - psi_s - xi_s))),
            1 / chi_s * (psi_s * F_2_down - xi_s * F_1_up +
              pi_s * (B1 * (chi_s + xi_s) - psi_s * B2 +
                Bp / (2 * Ev * (1 - omega_0 * g_0)) * (xi_s + psi_s - chi_s)))))"
proof -
  define Ev where "Ev = E omega_0 g_0"
  define r1 where "r1 = Ev * (Ev - omega_0) * (1 - omega_0 * g_0)"
  define r2 where "r2 = (Ev - omega_0) / Ev / (1 - omega_0 * g_0)"
  define zeta_def where "zeta_def \<longleftrightarrow> Ev \<noteq> 0 \<and> 1 - omega_0 * g_0 \<noteq> 0 \<and> 0 \<le> r2"
  have T: "T_trans_chk omega_0 g_0 delta_tau =
             (if 0 \<le> r1 then Some (exp (- 2 * sqrt r1 * delta_tau)) else None)"
    unfolding r1_def Ev_def by (rule T_trans_chk_eq)
  have zr: "zeta_root_chk omega_0 g_0 = (if zeta_def then Some (sqrt r2) else None)"
    unfolding zeta_def_def r2_def Ev_def by (rule zeta_root_chk_eq)
  have zp: "zeta_plus_chk omega_0 g_0 = (if zeta_def then Some ((1 + sqrt r2) / 2) else None)"
    by (simp add: zeta_plus_chk_def zr)
  have zm: "zeta_minus_chk omega_0 g_0 = (if zeta_def then Some ((1 - sqrt r2) / 2) else None)"
    by (simp add: zeta_minus_chk_def zr)
  have chi: "chi_chk omega_0 g_0 delta_tau =
      (if 0 \<le> r1 \<and> zeta_def
       then Some (((1 - sqrt r2) / 2)\<^sup>2 * (exp (- 2 * sqrt r1 * delta_tau))\<^sup>2
                    - ((1 + sqrt r2) / 2)\<^sup>2)
       else None)"
    by (simp add: chi_chk_def T zp zm)
  have xi: "xi_chk omega_0 g_0 delta_tau =
      (if 0 \<le> r1 \<and> zeta_def
       then Some ((1 + sqrt r2) / 2 * ((1 - sqrt r2) / 2) *
                    (1 - (exp (- 2 * sqrt r1 * delta_tau))\<^sup>2))
       else None)"
    by (simp add: xi_chk_def T zp zm)
  have psi: "psi_chk omega_0 g_0 delta_tau =
      (if 0 \<le> r1 \<and> zeta_def
       then Some ((((1 - sqrt r2) / 2)\<^sup>2 - ((1 + sqrt r2) / 2)\<^sup>2) *
                    exp (- 2 * sqrt r1 * delta_tau))
       else None)"
    by (simp add: psi_chk_def T zp zm)
  have pc: "pi_coeff_chk omega_0 g_0 =
      (if Ev \<noteq> omega_0 then Some (pi * (1 - omega_0) / (Ev - omega_0)) else None)"
    by (simp add: pi_coeff_chk_def div_chk_def Ev_def)
  have val: "propagate_fluxes lam F_1_up F_2_down T_1 T_2 delta_tau omega_0 g_0 =
      (let T = exp (- 2 * sqrt r1 * delta_tau);
           zp = (1 + sqrt r2) / 2;
           zm = (1 - sqrt r2) / 2;
           chi_s = zm\<^sup>2 * T\<^sup>2 - zp\<^sup>2;
           xi_s = zp * zm * (1 - T\<^sup>2);
           psi_s = (zm\<^sup>2 - zp\<^sup>2) * T;
           pi_s = pi * (1 - omega_0) / (Ev - omega_0);
           B1 = BB T_1 (1 / lam);
           B2 = BB T_2 (1 / lam);
           Bp = Bprime B1 B2 delta_tau
       in (1 / chi_s * (psi_s * F_1_up - xi_s * F_2_down +
              pi_s * (B2 * (chi_s + xi_s) - psi_s * B1 +
                Bp / (2 * Ev * (1 - omega_0 * g_0)) * (chi_s - psi_s - xi_s))),
            1 / chi_s * (psi_s * F_2_down - xi_s * F_1_up +
              pi_s * (B1 * (chi_s + xi_s) - psi_s * B2 +
                Bp / (2 * Ev * (1 - omega_0 * g_0)) * (xi_s + psi_s - chi_s)))))"
    if d: "0 \<le> r1" "zeta_def"
  proof -
    have "T_trans_chk omega_0 g_0 delta_tau = Some (exp (- 2 * sqrt r1 * delta_tau))"
      using T d by simp
    then have a: "T_trans omega_0 g_0 delta_tau = exp (- 2 * sqrt r1 * delta_tau)"
      by (rule T_trans_chk_value [symmetric])
    have "zeta_plus_chk omega_0 g_0 = Some ((1 + sqrt r2) / 2)"
      using zp d by simp
    then have b: "zeta_plus omega_0 g_0 = (1 + sqrt r2) / 2"
      by (rule zeta_chk_value(1) [symmetric])
    have "zeta_minus_chk omega_0 g_0 = Some ((1 - sqrt r2) / 2)"
      using zm d by simp
    then have c: "zeta_minus omega_0 g_0 = (1 - sqrt r2) / 2"
      by (rule zeta_chk_value(2) [symmetric])
    show ?thesis
      unfolding propagate_fluxes_def chi_def xi_def psi_def pi_coeff_def a b c Let_def Ev_def
      by simp
  qed
  show ?thesis
    unfolding Let_def Ev_def [symmetric] r1_def [symmetric] r2_def [symmetric]
      zeta_def_def [symmetric]
    using T zp zm chi xi psi pc val unfolding Let_def by simp
qed

theorem propagate_fluxes_coefficients_witness:
  "T_trans_chk 0.5 0 1 = Some (exp (- 2 * sqrt (E 0.5 0 * (E 0.5 0 - 0.5) * (1 - 0.5 * 0)) * 1)) \<and>
   zeta_plus_chk 0.5 0 = Some ((1 + sqrt ((E 0.5 0 - 0.5) / E 0.5 0 / (1 - 0.5 * 0))) / 2) \<and>
   pi_coeff_chk 0.5 0 = Some (pi * (1 - 0.5) / (E 0.5 0 - 0.5)) \<and>
   T_trans_chk 1 0 1 = None \<and> chi_chk 1 0 1 = None"
proof -
  have e: "E 0.5 0 = 1.122195"
    by (simp add: E_def jnp_where_def power2_eq_square)
  have e1: "E 1 0 = 0.99148"
    by (simp add: E_def jnp_where_def)
  have h1: "0 \<le> E 0.5 0 * (E 0.5 0 - 0.5) * (1 - 0.5 * 0)" unfolding e by simp
  have h2: "E 0.5 0 \<noteq> 0 \<and> 1 - 0.5 * 0 \<noteq> (0::real) \<and>
            0 \<le> (E 0.5 0 - 0.5) / E 0.5 0 / (1 - 0.5 * 0)" unfolding e by simp
  have h3: "E 0.5 0 \<noteq> 0.5" unfolding e by simp
  have n1: "\<not> 0 \<le> E 1 0 * (E 1 0 - 1) * (1 - 1 * 0)" unfolding e1 by simp
  show ?thesis
    using h1 h2 h3 n1
      propagate_fluxes_coefficients [of "0.5" 0 1 0 0 0 0 0]
      propagate_fluxes_coefficients [of 1 0 1 0 0 0 0 0]
    unfolding Let_def by simp
qed

lemma propagate_fluxes_transparent:
  "propagate_fluxes lam F_1_up F_2_down T T 0 0 0 = (F_1_up, F_2_down)"
  by (simp add: propagate_fluxes_def Let_def chi_def xi_def psi_def pi_coeff_def
      zeta_plus_def zeta_minus_def T_trans_def E_def jnp_where_def Bprime_def)

text \<open>
  C2, as the code has it. With \<open>delta_tau = 0\<close>, \<open>omega_0 = g_0 = 0\<close> and equal layer
  temperatures, each flux passes through the layer in its own direction: the outgoing
  upward flux \<open>F_2_up\<close> is the incoming upward flux \<open>F_1_up\<close>, and the outgoing downward
  flux \<open>F_1_down\<close> is the incoming downward flux \<open>F_2_down\<close>.
\<close>

theorem transparent_layer_passes_fluxes:
  "T_1 = T_2 \<Longrightarrow>
     propagate_fluxes lam F_1_up F_2_down T_1 T_2 0 0 0 = (F_1_up, F_2_down)"
  by (simp add: propagate_fluxes_transparent)

theorem transparent_layer_passes_fluxes_witness:
  "(300::real) = 300 \<and> propagate_fluxes 1 3 7 300 300 0 0 0 = (3, 7)"
  using transparent_layer_passes_fluxes [of 300 300 1 3 7] by simp

text \<open>The claim as the specification words it, with the two directions exchanged
  (\<open>F_up_out = F_down_in\<close> and \<open>F_down_out = F_up_in\<close>), fails for the incoming fluxes
  \<open>F_1_up = 3\<close> and \<open>F_2_down = 7\<close>.\<close>

theorem transparent_layer_swap_counterexample:
  "\<not> (fst (propagate_fluxes 1 3 7 300 300 0 0 0) = 7 \<and>
      snd (propagate_fluxes 1 3 7 300 300 0 0 0) = 3)"
  by (simp add: propagate_fluxes_transparent)

subsection \<open>Convective flux\<close>

lemma delta_z_i_pos:
  assumes "0 < k_B" "0 < T" "0 < g" "0 < m_bar" "0 < p2" "p2 < p1"
  shows "0 < delta_z_i k_B T p1 p2 g m_bar"
  unfolding delta_z_i_def using assms by simp

lemma c_p_pos: "0 < k_B \<Longrightarrow> 0 < m_bar \<Longrightarrow> - 2 < n_dof \<Longrightarrow> 0 < c_p k_B m_bar n_dof"
  by (simp add: c_p_def)

lemma rho_p_pos:
  assumes "0 < k_B" "0 < T" "0 < g" "0 < m_bar" "0 < p2" "p2 < p1"
  shows "0 < rho_p k_B p1 p2 T g m_bar"
  unfolding rho_p_def using delta_z_i_pos [OF assms] assms by simp

lemma mixing_prefactor_pos:
  assumes "0 < k_B" "0 < T" "0 < g" "0 < m_bar" "0 < p2" "p2 < p1" "- 2 < n_dof" "alpha \<noteq> 0"
  shows "0 < rho_p k_B p1 p2 T g m_bar * c_p k_B m_bar n_dof *
             (mixing_length k_B T g alpha m_bar)\<^sup>2 * sqrt (g / T)"
proof -
  have "mixing_length k_B T g alpha m_bar \<noteq> 0"
    using assms by (simp add: mixing_length_def)
  then have "0 < (mixing_length k_B T g alpha m_bar)\<^sup>2" by simp
  moreover have "0 < sqrt (g / T)" using assms by simp
  moreover have "0 < rho_p k_B p1 p2 T g m_bar"
    using assms by (intro rho_p_pos)
  moreover have "0 < c_p k_B m_bar n_dof" using assms by (intro c_p_pos)
  ultimately show ?thesis by simp
qed

lemma convective_flux_eq:
  assumes "0 < T" "0 < g"
  shows "convective_flux k_B T T2 p1 p2 g m_bar n_dof alpha =
     (if gamma k_B T T2 p1 p2 g m_bar - gamma_adiabatic k_B g m_bar n_dof > 0
      then rho_p k_B p1 p2 T g m_bar * c_p k_B m_bar n_dof *
             (mixing_length k_B T g alpha m_bar)\<^sup>2 * sqrt (g / T) *
           (gamma k_B T T2 p1 p2 g m_bar - gamma_adiabatic k_B g m_bar n_dof) powr 1.5
      else 0)"
proof -
  have "0 \<le> g / T" using assms by simp
  then have "(g / T) powr 0.5 = sqrt (g / T)"
    using powr_half_sqrt [of "g / T"] by simp
  then show ?thesis
    by (simp add: convective_flux_def Let_def delta_gamma_def)
qed


lemma delta_gamma_eq:
  "delta_gamma k_B T T2 p1 p2 g m_bar n_dof =
     (T - T2) / delta_z_i k_B T p1 p2 g m_bar - g / c_p k_B m_bar n_dof"
  by (simp add: delta_gamma_def gamma_def gamma_adiabatic_def)

text \<open>
  C7. For a layer pair with positive temperature, gravity, mean molecular mass and
  Boltzmann constant, pressures \<open>p1 > p2 > 0\<close>, \<open>n_dof > -2\<close> and a nonzero mixing-length
  parameter: \<open>convective_flux\<close> is exactly zero whenever the lapse rate
  \<open>\<Gamma> = (T_i - T_ip1) / \<Delta>z\<close> is at most the adiabatic lapse rate \<open>\<Gamma>_ad = g / c_p\<close>;
  otherwise it is the mixing-length flux \<open>\<rho> c_p l_mix\<^sup>2 \<surd>(g / T) (\<Gamma> - \<Gamma>_ad)^1.5\<close>, which
  is strictly positive; and it is strictly increasing in \<open>\<Gamma> - \<Gamma>_ad\<close> (varied through the
  temperature of the upper layer, the prefactor being fixed).
\<close>

theorem convective_flux_mixing_length:
  assumes "0 < k_B" "0 < T" "0 < g" "0 < m_bar" "0 < p2" "p2 < p1" "- 2 < n_dof" "alpha \<noteq> 0"
  shows "((T - T2) / delta_z_i k_B T p1 p2 g m_bar \<le> g / c_p k_B m_bar n_dof \<longrightarrow>
            convective_flux k_B T T2 p1 p2 g m_bar n_dof alpha = 0) \<and>
         ((T - T2) / delta_z_i k_B T p1 p2 g m_bar > g / c_p k_B m_bar n_dof \<longrightarrow>
            convective_flux k_B T T2 p1 p2 g m_bar n_dof alpha =
              rho_p k_B p1 p2 T g m_bar * c_p k_B m_bar n_dof *
              (mixing_length k_B T g alpha m_bar)\<^sup>2 * sqrt (g / T) *
              ((T - T2) / delta_z_i k_B T p1 p2 g m_bar - g / c_p k_B m_bar n_dof) powr 1.5 \<and>
            0 < convective_flux k_B T T2 p1 p2 g m_bar n_dof alpha) \<and>
         ((T - T2) / delta_z_i k_B T p1 p2 g m_bar > g / c_p k_B m_bar n_dof \<and>
          (T - T2') / delta_z_i k_B T p1 p2 g m_bar - g / c_p k_B m_bar n_dof >
            (T - T2) / delta_z_i k_B T p1 p2 g m_bar - g / c_p k_B m_bar n_dof \<longrightarrow>
            convective_flux k_B T T2 p1 p2 g m_bar n_dof alpha
              < convective_flux k_B T T2' p1 p2 g m_bar n_dof alpha)"
proof -
  define K where "K = rho_p k_B p1 p2 T g m_bar * c_p k_B m_bar n_dof *
             (mixing_length k_B T g alpha m_bar)\<^sup>2 * sqrt (g / T)"
  define d where "d = (\<lambda>t. (T - t) / delta_z_i k_B T p1 p2 g m_bar - g / c_p k_B m_bar n_dof)"
  have K: "0 < K" unfolding K_def using assms by (intro mixing_prefactor_pos)
  have cf: "convective_flux k_B T t p1 p2 g m_bar n_dof alpha =
     (if d t > 0 then K * d t powr 1.5 else 0)" for t
    unfolding K_def d_def
    using convective_flux_eq [OF assms(2,3), of k_B t p1 p2 m_bar n_dof alpha]
    by (simp add: gamma_def gamma_adiabatic_def)
  have a: "convective_flux k_B T T2 p1 p2 g m_bar n_dof alpha = 0" if "d T2 \<le> 0"
    using that by (simp add: cf)
  have b: "convective_flux k_B T T2 p1 p2 g m_bar n_dof alpha = K * d T2 powr 1.5"
    and b': "0 < convective_flux k_B T T2 p1 p2 g m_bar n_dof alpha" if "d T2 > 0"
    using that K by (simp_all add: cf)
  have c: "convective_flux k_B T T2 p1 p2 g m_bar n_dof alpha
              < convective_flux k_B T T2' p1 p2 g m_bar n_dof alpha"
    if "d T2 > 0" "d T2' > d T2"
  proof -
    have "d T2 powr 1.5 < d T2' powr 1.5"
      using that by (intro powr_less_mono2) simp_all
    then have "K * d T2 powr 1.5 < K * d T2' powr 1.5"
      using K by simp
    moreover have "d T2' > 0" using that by linarith
    ultimately show ?thesis using that by (simp add: cf)
  qed
  show ?thesis
    using a b b' c unfolding K_def d_def by auto
qed

theorem convective_flux_mixing_length_witness:
  "(0::real) < 1 \<and> (0::real) < 2 \<and> (1::real) < 2 \<and> - 2 < (5::real) \<and> (1::real) \<noteq> 0 \<and>
   (2 - 2) / delta_z_i 1 2 2 1 1 1 \<le> 1 / c_p 1 1 5 \<and>
   convective_flux 1 2 2 2 1 1 1 5 1 = 0 \<and>
   (2 - 1) / delta_z_i 1 2 2 1 1 1 > 1 / c_p 1 1 5 \<and>
   0 < convective_flux 1 2 1 2 1 1 1 5 1 \<and>
   (2 - 0) / delta_z_i 1 2 2 1 1 1 - 1 / c_p 1 1 5 >
     (2 - 1) / delta_z_i 1 2 2 1 1 1 - 1 / c_p 1 1 5 \<and>
   convective_flux 1 2 1 2 1 1 1 5 1 < convective_flux 1 2 0 2 1 1 1 5 1"
proof -
  have l: "0 < ln (2::real)" "ln (2::real) < 1" using ln_2_less_1 by simp_all
  have dz: "delta_z_i 1 2 2 1 1 1 = 2 * ln 2" by (simp add: delta_z_i_def)
  have cp: "1 / c_p 1 1 5 = (2 / 7 :: real)" by (simp add: c_p_def)
  have "2 * ln (2::real) < 2" using l by simp
  then have "1 / 2 < 1 / (2 * ln (2::real))"
    using l by (simp add: field_simps)
  then have x: "2 / 7 < 1 / (2 * ln (2::real))" by linarith
  have g1: "(2 - 1) / delta_z_i 1 2 2 1 1 1 > 1 / c_p 1 1 5"
    unfolding dz cp using x by simp
  have g0: "(2 - 2) / delta_z_i 1 2 2 1 1 1 \<le> 1 / c_p 1 1 5"
    unfolding cp by simp
  have "(1::real) / (2 * ln 2) < 2 / (2 * ln 2)"
    using l by (intro divide_strict_right_mono) simp_all
  then have g2: "(2 - 0) / delta_z_i 1 2 2 1 1 1 - 1 / c_p 1 1 5 >
     (2 - 1) / delta_z_i 1 2 2 1 1 1 - 1 / c_p 1 1 5"
    unfolding dz by simp
  show ?thesis
    using g0 g1 g2
      convective_flux_mixing_length [of 1 2 1 1 1 2 5 1 2 2]
      convective_flux_mixing_length [of 1 2 1 1 1 2 5 1 1 0]
    by simp
qed

subsection \<open>Radiative-equilibrium timestep\<close>

text \<open>
  C4, as the code has it. For a layer with positive temperature, gravity, mean molecular
  mass and constants and pressures \<open>p_1 > p_2 > 0\<close>, \<open>delta_t_i\<close> is the radiative
  timescale \<open>c_p p / (\<sigma> g T\<^sup>3)\<close>, capped by the convective timescale \<open>\<surd>(T / (g \<Delta>\<gamma>))\<close>
  when the lapse-rate excess \<open>\<Delta>\<gamma> = (T_1 - T_2) / \<Delta>z - g / c_p\<close> is positive, the whole
  scaled by the pre-factor \<open>f = 1e5 / (|dF/dz \<cdot> dz| / (erg cm\<^sup>-\<^sup>2 s\<^sup>-\<^sup>1))^0.9\<close> when the flux
  difference across the layer \<open>dF/dz \<cdot> dz\<close> is nonzero and by \<open>f = 1\<close> otherwise
  (Malik 2017 Eqns 27 and 28).
\<close>

theorem delta_t_i_formula:
  assumes "0 < k_B" "0 < sigma_sb" "0 < erg_cm2_s" "0 < T_1" "0 < g" "0 < m_bar"
    "0 < p_2" "p_2 < p_1" "- 2 < n_dof"
  shows "delta_t_i k_B sigma_sb erg_cm2_s p_1 p_2 T_1 T_2 delta_F_i_dz g m_bar n_dof =
     (let dz = delta_z_i k_B T_1 p_1 p_2 g m_bar;
          f = (if delta_F_i_dz * dz \<noteq> 0
               then 10 ^ 5 / ((\<bar>delta_F_i_dz * dz\<bar> / erg_cm2_s) powr 0.9) else 1);
          dt_radiative = c_p k_B m_bar n_dof * p_1 / (sigma_sb * g * T_1 ^ 3);
          d_gamma = (T_1 - T_2) / dz - g / c_p k_B m_bar n_dof
      in if d_gamma > 0
         then f * min dt_radiative (sqrt (T_1 / (g * d_gamma)))
         else f * dt_radiative)"
proof -
  have r: "c_p k_B m_bar n_dof * p_1 / sigma_sb / g / T_1 ^ 3 =
           c_p k_B m_bar n_dof * p_1 / (sigma_sb * g * T_1 ^ 3)"
    by (simp add: mult.assoc)
  have s: "(T_1 / g / d) powr 0.5 = sqrt (T_1 / (g * d))" if "0 < d" for d
  proof -
    have "0 \<le> T_1 / g / d" using assms that by simp
    then have "(T_1 / g / d) powr 0.5 = sqrt (T_1 / g / d)"
      using powr_half_sqrt [of "T_1 / g / d"] by simp
    then show ?thesis by simp
  qed
  show ?thesis
    unfolding delta_t_i_def Let_def r delta_gamma_eq using s by simp
qed

theorem delta_t_i_formula_witness:
  "(0::real) < 1 \<and> (0::real) < 2 \<and> (1::real) < 2 \<and> - 2 < (5::real) \<and>
   1 * delta_z_i 1 2 2 1 1 1 \<noteq> 0 \<and>
   0 < (2 - 1) / delta_z_i 1 2 2 1 1 1 - 1 / c_p 1 1 5 \<and>
   delta_t_i 1 1 1 2 1 2 1 1 1 1 5 =
     10 ^ 5 / ((\<bar>1 * delta_z_i 1 2 2 1 1 1\<bar> / 1) powr 0.9) *
       min (c_p 1 1 5 * 2 / (1 * 1 * 2 ^ 3))
           (sqrt (2 / (1 * ((2 - 1) / delta_z_i 1 2 2 1 1 1 - 1 / c_p 1 1 5))))"
proof -
  have l: "0 < ln (2::real)" "ln (2::real) < 1" using ln_2_less_1 by simp_all
  have dz: "delta_z_i 1 2 2 1 1 1 = 2 * ln 2" by (simp add: delta_z_i_def)
  have cp: "1 / c_p 1 1 5 = (2 / 7 :: real)" by (simp add: c_p_def)
  have "2 * ln (2::real) < 2" using l by simp
  then have "1 / 2 < 1 / (2 * ln (2::real))"
    using l by (simp add: field_simps)
  then have x: "2 / 7 < 1 / (2 * ln (2::real))" by linarith
  have g1: "0 < (2 - 1) / delta_z_i 1 2 2 1 1 1 - 1 / c_p 1 1 5"
    unfolding dz cp using x by simp
  have nz: "1 * delta_z_i 1 2 2 1 1 1 \<noteq> 0"
    unfolding dz using l by simp
  have h: "(0::real) < 1" "(0::real) < 2" "(1::real) < 2" "- 2 < (5::real)" by simp_all
  show ?thesis
    using h g1 nz
      delta_t_i_formula [OF h(1) h(1) h(1) h(2) h(1) h(1) h(1) h(3) h(4), of 1 1]
    unfolding Let_def by simp
qed

text \<open>The timestep as the specification words it, with \<open>f = (1e5 / |dF/dz|)^0.9\<close>,
  differs from the code in CGS units (\<open>erg_cm2_s = 1\<close>) for \<open>k_B = 1.380649e-16\<close>,
  \<open>sigma_sb = 5.670374419e-5\<close>, \<open>p_1 = 2\<close>, \<open>p_2 = 1\<close>, \<open>T_1 = T_2 = 1\<close>, \<open>dF/dz = 1\<close>,
  \<open>g = 1\<close>, \<open>m_bar = 1\<close> and \<open>n_dof = 5\<close>: there \<open>0 < dz < 1\<close>, the code's pre-factor
  exceeds \<open>1e5\<close> and the specification's is below it.\<close>

theorem delta_t_i_spec_counterexample:
  "delta_t_i (1.380649 / 10 ^ 16) (5.670374419 / 10 ^ 5) 1 2 1 1 1 1 1 1 5 \<noteq>
   delta_t_i_spec (1.380649 / 10 ^ 16) (5.670374419 / 10 ^ 5) 2 1 1 1 1 1 1 5"
proof -
  define kB :: real where "kB = 1.380649 / 10 ^ 16"
  define sg :: real where "sg = 5.670374419 / 10 ^ 5"
  define dz where "dz = delta_z_i kB 1 2 1 1 1"
  define dt where "dt = c_p kB 1 5 * 2 / sg"
  have kB: "0 < kB" "kB < 1" by (simp_all add: kB_def)
  have sg: "0 < sg" by (simp add: sg_def)
  have l2: "0 < ln (2::real)" "ln (2::real) < 1" using ln_2_less_1 by simp_all
  have dz: "dz = kB * ln 2" by (simp add: dz_def delta_z_i_def)
  have dz0: "0 < dz" unfolding dz using kB l2 by simp
  have "kB * ln 2 < 1 * 1" using kB l2 by (intro mult_strict_mono) simp_all
  then have dz1: "dz < 1" unfolding dz by simp
  have cp: "0 < c_p kB 1 5" using kB by (simp add: c_p_def)
  have dt: "0 < dt" unfolding dt_def using cp sg by simp
  have dg: "delta_gamma kB 1 1 2 1 1 1 5 < 0"
    using cp by (simp add: delta_gamma_def gamma_def gamma_adiabatic_def)
  have code: "delta_t_i kB sg 1 2 1 1 1 1 1 1 5 = 10 ^ 5 / (dz powr 0.9) * dt"
    using dg dz0 by (simp add: delta_t_i_def Let_def dz_def [symmetric] dt_def)
  have spec: "delta_t_i_spec kB sg 2 1 1 1 1 1 1 5 = (10 ^ 5) powr 0.9 * dt"
    using dg by (simp add: delta_t_i_spec_def Let_def dt_def)
  have "dz powr 0.9 < 1" using powr01_less_one [OF dz0 dz1, of "0.9"] by simp
  moreover have "0 < dz powr 0.9" using dz0 by simp
  ultimately have a: "(10::real) ^ 5 < 10 ^ 5 / (dz powr 0.9)"
    by (simp add: less_divide_eq)
  have "((10::real) ^ 5) powr 0.9 < (10 ^ 5) powr 1"
    by (intro powr_less_mono) simp_all
  then have b: "((10::real) ^ 5) powr 0.9 < 10 ^ 5" by simp
  have "((10::real) ^ 5) powr 0.9 < 10 ^ 5 / (dz powr 0.9)"
    using a b by (rule less_trans [rotated])
  then have "(10 ^ 5) powr 0.9 * dt < 10 ^ 5 / (dz powr 0.9) * dt"
    using dt by (rule mult_strict_right_mono)
  then have "delta_t_i kB sg 1 2 1 1 1 1 1 1 5 \<noteq> delta_t_i_spec kB sg 2 1 1 1 1 1 1 5"
    unfolding code spec by simp
  then show ?thesis
    unfolding kB_def sg_def .
qed

subsection \<open>Emission driver\<close>

lemma bind_err_Inr_iff:
  "bind_err m f = Inr r \<longleftrightarrow> (\<exists>v. m = Inr v \<and> f v = Inr r)"
  by (cases m) (simp_all add: bind_err_def)

lemma bind_err_Inr [simp]: "bind_err (Inr v) f = f v"
  by (simp add: bind_err_def)

lemma bind_err_Inl [simp]: "bind_err (Inl e) f = Inl e"
  by (simp add: bind_err_def)

lemma mapM_err_length: "mapM_err f xs = Inr ys \<Longrightarrow> length ys = length xs"
proof (induction xs arbitrary: ys)
  case Nil
  then show ?case by simp
next
  case (Cons x xs)
  then show ?case by (auto simp: bind_err_Inr_iff)
qed

lemma mapM_err_total:
  "(\<And>x. x \<in> set xs \<Longrightarrow> \<exists>y. f x = Inr y) \<Longrightarrow> \<exists>ys. mapM_err f xs = Inr ys"
proof (induction xs)
  case Nil
  then show ?case by simp
next
  case (Cons x xs)
  then obtain y ys where "f x = Inr y" "mapM_err f xs = Inr ys"
    by (meson list.set_intros)
  then show ?case by simp
qed

lemma foldM_err_invariant:
  assumes "\<forall>i \<in> set js. Q i"
    and "\<And>i s s'. Q i \<Longrightarrow> P s \<Longrightarrow> f i s = Inr s' \<Longrightarrow> P s'"
    and "P s" and "foldM_err f js s = Inr r"
  shows "P r"
  using assms
proof (induction js arbitrary: s)
  case Nil
  then show ?case by simp
next
  case (Cons j js)
  from Cons.prems(4) obtain s' where s': "f j s = Inr s'" "foldM_err f js s' = Inr r"
    by (auto simp: bind_err_Inr_iff)
  have "P s'" using Cons.prems(1,2,3) s'(1) by auto
  then show ?case using Cons.IH [of s'] Cons.prems(1,2) s'(2) by auto
qed

lemma foldM_err_total:
  assumes "\<forall>i \<in> set js. Q i"
    and "\<And>i s. Q i \<Longrightarrow> P s \<Longrightarrow> \<exists>s'. f i s = Inr s' \<and> P s'"
    and "P s"
  shows "\<exists>r. foldM_err f js s = Inr r \<and> P r"
  using assms
proof (induction js arbitrary: s)
  case Nil
  then show ?case by simp
next
  case (Cons j js)
  obtain s' where s': "f j s = Inr s'" "P s'"
    using Cons.prems by (meson list.set_intros(1))
  obtain r where "foldM_err f js s' = Inr r \<and> P r"
    using Cons.IH [of s'] Cons.prems(1,2) s'(2) by auto
  then show ?case using s'(1) by auto
qed

lemma clamped_index_Inr:
  assumes "clamped_index xs i = Inr v"
  shows "xs \<noteq> []" and "v = xs ! min i (length xs - 1)" and "v \<in> set xs"
proof -
  show ne: "xs \<noteq> []" using assms by (auto simp: clamped_index_def split: if_splits)
  show v: "v = xs ! min i (length xs - 1)"
    using assms by (auto simp: clamped_index_def split: if_splits)
  have "min i (length xs - 1) < length xs" using ne by (cases xs) auto
  then show "v \<in> set xs" unfolding v by (rule nth_mem)
qed



lemma clamped_index_total: "xs \<noteq> [] \<Longrightarrow> \<exists>v. clamped_index xs i = Inr v"
  by (simp add: clamped_index_def)


lemma length_at_set: "length (at_set xs i v) = length xs"
  by (simp add: at_set_def)

lemma at_set_nth_neq: "i \<noteq> j \<Longrightarrow> at_set xs i v ! j = xs ! j"
  by (simp add: at_set_def)



lemma body_fun_Inr:
  assumes len: "length fluxes = 2 * n"
    and b: "body_fun interp offline_opacities temps pressures lam g grid i fluxes = Inr fluxes'"
  obtains p_1 p_2 T_1 T_2 kap F_1_up F_2_down where
    "clamped_index pressures (i + 1) = Inr p_2" "clamped_index temps (i + 1) = Inr T_2"
    "clamped_index pressures i = Inr p_1" "clamped_index temps i = Inr T_1"
    "kappa_interp interp offline_opacities grid temps lam i = Inr kap"
    "clamped_index (drop n fluxes) (i + 1) = Inr F_2_down"
    "clamped_index (take n fluxes) i = Inr F_1_up"
    "fluxes' =
       at_set (take n fluxes) (i + 1)
         (fst (propagate_fluxes_arr lam F_1_up F_2_down T_1 T_2
                 (map (\<lambda>kappa_i. delta_tau_i kappa_i p_1 p_2 g) kap) 0 0)) @
       at_set (drop n fluxes) i
         (snd (propagate_fluxes_arr lam F_1_up F_2_down T_1 T_2
                 (map (\<lambda>kappa_i. delta_tau_i kappa_i p_1 p_2 g) kap) 0 0))"
proof -
  have h: "length fluxes div 2 = n" using len by simp
  from b show thesis
    unfolding body_fun_def Let_def h bind_err_Inr_iff
    by (auto simp: case_prod_beta intro: that)
qed



lemma body_fun_keeps_bottom:
  assumes "1 \<le> i"
    and "length fluxes = 2 * n \<and> take n fluxes ! 0 = z0 \<and> take n fluxes ! 1 = z1"
    and b: "body_fun interp offline_opacities temps pressures lam g grid i fluxes = Inr fluxes'"
  shows "length fluxes' = 2 * n \<and> take n fluxes' ! 0 = z0 \<and> take n fluxes' ! 1 = z1"
proof -
  from assms(2) have len: "length fluxes = 2 * n" by simp
  obtain A B where eq: "fluxes' = at_set (take n fluxes) (i + 1) A @ at_set (drop n fluxes) i B"
    using body_fun_Inr [OF len b] by metis
  have l1: "length (at_set (take n fluxes) (i + 1) A) = n"
    using len by (simp add: length_at_set)
  have l2: "length (at_set (drop n fluxes) i B) = n"
    using len by (simp add: length_at_set)
  have t: "take n fluxes' = at_set (take n fluxes) (i + 1) A"
    unfolding eq using l1 by simp
  show ?thesis
    unfolding t using assms(1,2) l1 l2 by (simp add: eq at_set_nth_neq)
qed



lemma emit_Inr:
  assumes "emit interp offline_opacities temperatures pressures lam F_TOA g grid
             = Inr (fluxes_up, fluxes_down)"
  obtains row res where
    "pressures \<noteq> []" "broadcast_row F_TOA (length lam) = Some row"
    "foldM_err (body_fun interp offline_opacities temperatures pressures lam g grid)
       [1..<length pressures]
       (replicate (length pressures) (replicate (length lam) 0) @
        (replicate (length pressures) (replicate (length lam) 0))
          [length pressures - 1 := row]) = Inr res"
    "fluxes_up = take (length res div 2) res" "fluxes_down = drop (length res div 2) res"
  using assms
  unfolding emit_def Let_def bind_err_Inr_iff at_set_last_def fori_loop_def
  by (auto split: if_splits option.splits intro: that)

lemma loop_keeps_bottom:
  assumes init: "length init = 2 * n"
    and res: "foldM_err (body_fun interp offline_opacities temperatures pressures lam g grid)
                [1..<n] init = Inr res"
  shows "length res = 2 * n \<and> take n res ! 0 = take n init ! 0 \<and>
         take n res ! 1 = take n init ! 1"
proof (rule foldM_err_invariant [where Q = "\<lambda>i. 1 \<le> i" and s = init and js = "[1..<n]"
      and f = "body_fun interp offline_opacities temperatures pressures lam g grid"
      and P = "\<lambda>s. length s = 2 * n \<and> take n s ! 0 = take n init ! 0 \<and>
                    take n s ! 1 = take n init ! 1"])
  show "foldM_err (body_fun interp offline_opacities temperatures pressures lam g grid)
          [1..<n] init = Inr res" by (rule res)
  show "\<forall>i \<in> set [1..<n]. 1 \<le> i" by simp
  show "length init = 2 * n \<and> take n init ! 0 = take n init ! 0 \<and>
        take n init ! 1 = take n init ! 1"
    using init by simp
  show "\<And>i s s'. 1 \<le> i \<Longrightarrow>
       length s = 2 * n \<and> take n s ! 0 = take n init ! 0 \<and> take n s ! 1 = take n init ! 1 \<Longrightarrow>
       body_fun interp offline_opacities temperatures pressures lam g grid i s = Inr s' \<Longrightarrow>
       length s' = 2 * n \<and> take n s' ! 0 = take n init ! 0 \<and> take n s' ! 1 = take n init ! 1"
    by (rule body_fun_keeps_bottom)
qed


lemma opacity_slice_total:
  assumes "offline_opacities \<noteq> []"
    and "\<forall>layer \<in> set offline_opacities.
           length layer = length grid \<and> (\<forall>row \<in> set layer. row \<noteq> [])"
  shows "\<exists>op. opacity_slice offline_opacities i j = Inr op \<and> length op = length grid"
proof -
  obtain layer where l: "clamped_index offline_opacities i = Inr layer"
    using clamped_index_total [OF assms(1)] by blast
  have m: "layer \<in> set offline_opacities" by (rule clamped_index_Inr(3) [OF l])
  then have "\<And>row. row \<in> set layer \<Longrightarrow> \<exists>v. clamped_index row j = Inr v"
    using assms(2) clamped_index_total by blast
  then obtain op where op: "mapM_err (\<lambda>row. clamped_index row j) layer = Inr op"
    using mapM_err_total [of layer "\<lambda>row. clamped_index row j"] by blast
  have "length op = length grid"
    using mapM_err_length [OF op] assms(2) m by simp
  then show ?thesis using l op by (simp add: opacity_slice_def)
qed

lemma kappa_interp_total:
  assumes "offline_opacities \<noteq> []"
    and "\<forall>layer \<in> set offline_opacities.
           length layer = length grid \<and> (\<forall>row \<in> set layer. row \<noteq> [])"
    and "grid \<noteq> []" and "temps \<noteq> []"
  shows "\<exists>kap. kappa_interp interp offline_opacities grid temps lam i = Inr kap"
proof -
  let ?f = "\<lambda>j. bind_err (opacity_slice offline_opacities i j)
                  (\<lambda>op. lax_scan (\<lambda>x. jnp_interp interp x grid op) 0 temps)"
  have f: "\<exists>y. ?f j = Inr y" for j
  proof -
    obtain op where op: "opacity_slice offline_opacities i j = Inr op"
      and lop: "length op = length grid"
      using opacity_slice_total [OF assms(1,2)] by blast
    have ji: "jnp_interp interp x grid op = Inr (interp x grid op)" for x
      using lop assms(3) by (simp add: jnp_interp_def)
    then have "\<exists>ys. mapM_err (\<lambda>x. jnp_interp interp x grid op) temps = Inr ys"
      by (intro mapM_err_total) blast
    then show ?thesis using op ji by (auto simp: lax_scan_def)
  qed
  then have "\<exists>rows. mapM_err ?f [0..<length lam] = Inr rows"
    by (intro mapM_err_total) blast
  then obtain rows where "lax_scan ?f 0 [0..<length lam] = Inr rows"
    using f [of 0] by (auto simp: lax_scan_def)
  then show ?thesis using assms(4) by (simp add: kappa_interp_def)
qed

lemma body_fun_total:
  assumes "pressures \<noteq> []" and "temps \<noteq> []"
    and "offline_opacities \<noteq> []"
    and "\<forall>layer \<in> set offline_opacities.
           length layer = length grid \<and> (\<forall>row \<in> set layer. row \<noteq> [])"
    and "grid \<noteq> []"
    and len: "length fluxes = 2 * n" and n: "0 < n"
  shows "\<exists>fluxes'. body_fun interp offline_opacities temps pressures lam g grid i fluxes
           = Inr fluxes'"
proof -
  have h: "length fluxes div 2 = n" using len by simp
  have "take n fluxes \<noteq> []" "drop n fluxes \<noteq> []" using len n by auto
  then obtain F1 F2 where F: "clamped_index (take n fluxes) i = Inr F1"
    "clamped_index (drop n fluxes) (Suc i) = Inr F2"
    using clamped_index_total by metis
  obtain p1 p2 T1 T2 where c: "clamped_index pressures i = Inr p1"
    "clamped_index pressures (Suc i) = Inr p2"
    "clamped_index temps i = Inr T1" "clamped_index temps (Suc i) = Inr T2"
    using clamped_index_total assms(1,2) by metis
  obtain kap where k: "kappa_interp interp offline_opacities grid temps lam i = Inr kap"
    using kappa_interp_total [OF assms(3,4,5,2)] by blast
  show ?thesis
    unfolding body_fun_def Let_def h
    by (simp add: F c k case_prod_beta)
qed

lemma emit_returns:
  assumes "pressures \<noteq> []" and "temperatures \<noteq> []"
    and "length F_TOA = length lam"
    and "offline_opacities \<noteq> []"
    and "\<forall>layer \<in> set offline_opacities.
           length layer = length grid \<and> (\<forall>row \<in> set layer. row \<noteq> [])"
    and "grid \<noteq> []"
  shows "\<exists>fluxes_up fluxes_down.
           emit interp offline_opacities temperatures pressures lam F_TOA g grid
             = Inr (fluxes_up, fluxes_down)"
proof -
  define n where "n = length pressures"
  define zeros where "zeros = replicate n (replicate (length lam) (0::real))"
  define init where "init = zeros @ zeros[n - 1 := F_TOA]"
  let ?body = "body_fun interp offline_opacities temperatures pressures lam g grid"
  have n0: "0 < n" using assms(1) by (simp add: n_def)
  have a: "at_set_last zeros (length lam) F_TOA = Inr (zeros[n - 1 := F_TOA])"
    using n0 assms(3) by (simp add: at_set_last_def broadcast_row_def zeros_def)
  have li: "length init = 2 * n" by (simp add: init_def zeros_def)
  have step: "\<exists>s'. ?body i s = Inr s' \<and> length s' = 2 * n" if ls: "length s = 2 * n" for i s
  proof -
    obtain s' where s': "?body i s = Inr s'"
      using body_fun_total [OF assms(1,2,4,5,6) ls n0] by blast
    obtain A B where "s' = at_set (take n s) (i + 1) A @ at_set (drop n s) i B"
      using body_fun_Inr [OF ls s'] by metis
    then have "length s' = 2 * n" using ls by (simp add: length_at_set)
    then show ?thesis using s' by blast
  qed
  obtain t where t: "?body 1 init = Inr t" using step [OF li] by blast
  have "\<exists>r. foldM_err ?body [1..<n] init = Inr r \<and> length r = 2 * n"
    by (rule foldM_err_total [where Q = "\<lambda>i. True"]) (use step li in auto)
  then obtain res where "foldM_err ?body [1..<n] init = Inr res" by blast
  then have "fori_loop 1 n ?body init = Inr res"
    using t by (simp add: fori_loop_def)
  then show ?thesis
    unfolding emit_def Let_def n_def [symmetric] zeros_def [symmetric] a
    by (simp add: init_def)
qed

text \<open>
  C10. Whenever \<open>emit\<close> returns, the rows of the returned \<open>flux_up\<close> at the two bottom
  layers, indices 0 and 1, are identically zero: the loop starts at index 1 and each step
  writes \<open>flux_up\<close> only at index \<open>i + 1\<close>, so these rows keep their initial value.
\<close>

theorem emit_bottom_rows_zero:
  assumes "emit interp offline_opacities temperatures pressures lam F_TOA g grid
             = Inr (fluxes_up, fluxes_down)"
  shows "length fluxes_up = length pressures \<and>
         (\<forall>i < length pressures. i \<le> 1 \<longrightarrow> fluxes_up ! i = replicate (length lam) 0)"
proof -
  define n where "n = length pressures"
  define zeros where "zeros = replicate n (replicate (length lam) (0::real))"
  obtain row res where
    res: "foldM_err (body_fun interp offline_opacities temperatures pressures lam g grid)
       [1..<n] (zeros @ zeros[n - 1 := row]) = Inr res"
    and up: "fluxes_up = take (length res div 2) res"
    using emit_Inr [OF assms] unfolding n_def zeros_def by metis
  have "length (zeros @ zeros[n - 1 := row]) = 2 * n" by (simp add: zeros_def)
  from loop_keeps_bottom [OF this res]
  have inv: "length res = 2 * n" "take n res ! 0 = zeros ! 0" "take n res ! 1 = zeros ! 1"
    by (simp_all add: zeros_def)
  have up': "fluxes_up = take n res" using up inv(1) by simp
  have z: "fluxes_up ! i = replicate (length lam) 0" if "i < n" "i \<le> 1" for i
  proof -
    from that(2) have "i = 0 \<or> i = 1" by arith
    then have "fluxes_up ! i = zeros ! i" using inv up' by auto
    then show ?thesis using that(1) by (simp add: zeros_def)
  qed
  have "length fluxes_up = n" using up' inv(1) by simp
  then show ?thesis using z unfolding n_def by blast
qed

theorem emit_bottom_rows_zero_witness:
  "\<exists>fluxes_up fluxes_down.
      emit (\<lambda>x xp fp. 0) [[[1]], [[1]], [[1]]] [300, 280, 260] [3, 2, 1] [1] [5] 10 [300]
        = Inr (fluxes_up, fluxes_down) \<and>
      length fluxes_up = 3 \<and> fluxes_up ! 0 = [0] \<and> fluxes_up ! 1 = [0]"
proof -
  obtain fluxes_up fluxes_down where
    e: "emit (\<lambda>x xp fp. 0) [[[1]], [[1]], [[1]]] [300, 280, 260] [3, 2, 1] [1] [5] 10 [300]
        = Inr (fluxes_up, fluxes_down)"
    using emit_returns [of "[3, 2, 1]" "[300, 280, 260]" "[5]" "[1]" "[[[1]], [[1]], [[1]]]"
        "[300]" "\<lambda>x xp fp. 0" 10] by auto
  have l: "length fluxes_up = length [3, 2, 1::real]"
    and z: "\<forall>i < length [3, 2, 1::real]. i \<le> 1 \<longrightarrow> fluxes_up ! i = replicate (length [1::real]) 0"
    using emit_bottom_rows_zero [OF e] by blast+
  have "fluxes_up ! 0 = [0]" "fluxes_up ! 1 = [0]"
    using z by simp_all
  then show ?thesis using e l by auto
qed








text \<open>
  C9, as the code has it. \<open>emit\<close> does not check the pressure grid: for every call with at
  least one layer, at least one temperature, at least one wavelength, an incident flux with
  one entry per wavelength and an opacity table with at least one layer, one row per
  point of a non-empty temperature grid and non-empty rows, \<open>emit\<close> returns the two flux
  arrays with \<open>n_layers\<close> rows each, whatever the order of the pressures.
\<close>

theorem emit_accepts_any_pressure_order:
  assumes "pressures \<noteq> []" and "temperatures \<noteq> []" and "lam \<noteq> []"
    and "length F_TOA = length lam"
    and "offline_opacities \<noteq> []"
    and "\<forall>layer \<in> set offline_opacities.
           length layer = length grid \<and> (\<forall>row \<in> set layer. row \<noteq> [])"
    and "grid \<noteq> []"
  shows "\<exists>fluxes_up fluxes_down.
           emit interp offline_opacities temperatures pressures lam F_TOA g grid
             = Inr (fluxes_up, fluxes_down) \<and>
           length fluxes_up = length pressures \<and> length fluxes_down = length pressures"
proof -
  obtain fluxes_up fluxes_down where
    e: "emit interp offline_opacities temperatures pressures lam F_TOA g grid
          = Inr (fluxes_up, fluxes_down)"
    using emit_returns [OF assms(1,2,4,5,6,7)] by blast
  define n where "n = length pressures"
  define zeros where "zeros = replicate n (replicate (length lam) (0::real))"
  obtain row res where
    res: "foldM_err (body_fun interp offline_opacities temperatures pressures lam g grid)
       [1..<n] (zeros @ zeros[n - 1 := row]) = Inr res"
    and up: "fluxes_up = take (length res div 2) res"
    and down: "fluxes_down = drop (length res div 2) res"
    using emit_Inr [OF e] unfolding n_def zeros_def by metis
  have "length (zeros @ zeros[n - 1 := row]) = 2 * n" by (simp add: zeros_def)
  from loop_keeps_bottom [OF this res] have "length res = 2 * n" by simp
  then have "length fluxes_up = n" "length fluxes_down = n" using up down by simp_all
  then show ?thesis using e unfolding n_def by blast
qed

theorem emit_accepts_any_pressure_order_witness:
  "\<exists>fluxes_up fluxes_down.
      emit (\<lambda>x xp fp. 0) [[[1]], [[1]], [[1]]] [300, 280, 260] [1, 3, 2] [1] [5] 10 [300]
        = Inr (fluxes_up, fluxes_down) \<and>
      length fluxes_up = 3 \<and> length fluxes_down = 3"
  using emit_accepts_any_pressure_order [of "[1, 3, 2]" "[300, 280, 260]" "[1]" "[5]"
      "[[[1]], [[1]], [[1]]]" "[300]" "\<lambda>x xp fp. 0" 10]
  by auto

lemma upt_1_3: "[1..<3] = [1, 2]"
  by (simp add: upt_rec)

text \<open>The pressure grid \<open>[1, 3, 2]\<close> is not monotonic; \<open>emit\<close> does not reject it but
  runs the layer loop and returns the flux arrays.\<close>

theorem emit_non_monotonic_counterexample:
  "emit (\<lambda>x xp fp. 0) [[[1]], [[1]], [[1]]] [300, 300, 300] [1, 3, 2] [1] [5] 10 [300]
     = Inr ([[0], [0], [0]], [[0], [5], [5]])"
  by (simp add: emit_def broadcast_row_def at_set_last_def fori_loop_def upt_1_3
      body_fun_def Let_def clamped_index_def kappa_interp_def lax_scan_def
      opacity_slice_def jnp_interp_def delta_tau_i_def propagate_fluxes_arr_def
      propagate_fluxes_transparent at_set_def)

end
